theory Spec2Isabelle
  imports Complex_Main
begin

section \<open>Data model\<close>

subsection \<open>The target schema (vertex-schema.ts)\<close>

text \<open>
  The enum \<open>SchemaType\<close> and the interface \<open>VertexSchema\<close>. Every field of the interface
  is optional, so every field is an \<open>option\<close>. A JavaScript number is modelled as a
  rational (NaN and the infinities are left out); an object used as a dictionary
  (\<open>properties\<close>) is the list of its entries in the order \<open>Object.keys\<close> enumerates them,
  with pairwise distinct keys. A value \<open>JObject\<close> is a plain object: the list holds its
  own enumerable properties and its prototype is \<open>Object.prototype\<close>, which is the value
  \<open>JObjectPrototype\<close>; \<open>JFunction\<close> is any function. The field \<open>type\<close> has the values of the enum, as its
  TypeScript type says; the selectors \<open>schema_type\<close> and \<open>enum_values\<close> are the fields
  \<open>type\<close> and \<open>enum\<close>.
\<close>

datatype SchemaType = STRING | NUMBER | INTEGER | BOOLEAN | ARRAY | OBJECT

type_synonym number = rat

datatype jsvalue =
    JUndefined
  | JNull
  | JBool bool
  | JNumber number
  | JString string
  | JArray "jsvalue list"
  | JObject "(string \<times> jsvalue) list"
  | JFunction
  | JObjectPrototype

datatype VertexSchema = VertexSchema
  (schema_type: "SchemaType option")
  (format: "string option")
  (description: "string option")
  (nullable: "bool option")
  (items: "VertexSchema option")
  (enum_values: "string list option")
  (properties: "(string \<times> VertexSchema) list option")
  (required: "string list option")
  (example: "jsvalue option")
  (propertyOrdering: "string list option")
  (anyOf: "VertexSchema list option")
  (minItems: "number option")
  (maxItems: "number option")
  (minimum: "number option")
  (maximum: "number option")

subsection \<open>The source schema (the zod library's schema objects)\<close>

text \<open>
  A zod schema object is modelled by its class and the part of its \<open>_def\<close> that the
  converters read or write; the last argument of every constructor is
  \<open>_def.description\<close>. A string check is its \<open>kind\<close> (\<open>datetime\<close>, \<open>date\<close>,
  \<open>regex\<close>, ...).
\<close>

datatype ZodNumberCheck = IntCheck | MinCheck number | MaxCheck number

datatype ZodTypeAny =
    ZodString "string list" "string option"
  | ZodNumber "ZodNumberCheck list" "string option"
  | ZodBoolean "string option"
  | ZodNull "string option"
  | ZodLiteral jsvalue "string option"
  | ZodEnum "string list" "string option"
  | ZodArray ZodTypeAny "number option" "number option" "number option" "string option"
  | ZodObject "(string \<times> ZodTypeAny) list" "string option"
  | ZodUnion "ZodTypeAny list" "string option"
  | ZodDiscriminatedUnion string "ZodTypeAny list" "string option"
  | ZodOptional ZodTypeAny "string option"
  | ZodNullable ZodTypeAny "string option"
  | ZodLazy ZodTypeAny "string option"
  | ZodOther string "string option"

text \<open>
  The constructors and methods of zod that the converter calls. \<open>describe\<close> returns the
  same schema with \<open>_def.description\<close> replaced; \<open>optional()\<close> and \<open>nullable()\<close> wrap
  the schema and hand its \<open>_def.description\<close> on to the wrapper. None of the
  constructors checks the length of the list it is given at run time.
\<close>

definition z_string :: ZodTypeAny where
  "z_string = ZodString [] None"

definition z_number :: ZodTypeAny where
  "z_number = ZodNumber [] None"

definition z_boolean :: ZodTypeAny where
  "z_boolean = ZodBoolean None"

definition z_enum :: "string list \<Rightarrow> ZodTypeAny" where
  "z_enum vals = ZodEnum vals None"

definition z_literal :: "jsvalue \<Rightarrow> ZodTypeAny" where
  "z_literal v = ZodLiteral v None"

definition z_array :: "ZodTypeAny \<Rightarrow> ZodTypeAny" where
  "z_array element = ZodArray element None None None None"

definition z_object :: "(string \<times> ZodTypeAny) list \<Rightarrow> ZodTypeAny" where
  "z_object shape = ZodObject shape None"

definition z_union :: "ZodTypeAny list \<Rightarrow> ZodTypeAny" where
  "z_union options = ZodUnion options None"

fun zod_description :: "ZodTypeAny \<Rightarrow> string option" where
  "zod_description (ZodString cs d) = d"
| "zod_description (ZodNumber cs d) = d"
| "zod_description (ZodBoolean d) = d"
| "zod_description (ZodNull d) = d"
| "zod_description (ZodLiteral v d) = d"
| "zod_description (ZodEnum vs d) = d"
| "zod_description (ZodArray e mn mx ex d) = d"
| "zod_description (ZodObject sh d) = d"
| "zod_description (ZodUnion os d) = d"
| "zod_description (ZodDiscriminatedUnion k os d) = d"
| "zod_description (ZodOptional t d) = d"
| "zod_description (ZodNullable t d) = d"
| "zod_description (ZodLazy t d) = d"
| "zod_description (ZodOther k d) = d"

fun describe :: "ZodTypeAny \<Rightarrow> string \<Rightarrow> ZodTypeAny" where
  "describe (ZodString cs d) t = ZodString cs (Some t)"
| "describe (ZodNumber cs d) t = ZodNumber cs (Some t)"
| "describe (ZodBoolean d) t = ZodBoolean (Some t)"
| "describe (ZodNull d) t = ZodNull (Some t)"
| "describe (ZodLiteral v d) t = ZodLiteral v (Some t)"
| "describe (ZodEnum vs d) t = ZodEnum vs (Some t)"
| "describe (ZodArray e mn mx ex d) t = ZodArray e mn mx ex (Some t)"
| "describe (ZodObject sh d) t = ZodObject sh (Some t)"
| "describe (ZodUnion os d) t = ZodUnion os (Some t)"
| "describe (ZodDiscriminatedUnion k os d) t = ZodDiscriminatedUnion k os (Some t)"
| "describe (ZodOptional z d) t = ZodOptional z (Some t)"
| "describe (ZodNullable z d) t = ZodNullable z (Some t)"
| "describe (ZodLazy z d) t = ZodLazy z (Some t)"
| "describe (ZodOther k d) t = ZodOther k (Some t)"

definition z_optional :: "ZodTypeAny \<Rightarrow> ZodTypeAny" where
  "z_optional z = ZodOptional z (zod_description z)"

definition z_nullable :: "ZodTypeAny \<Rightarrow> ZodTypeAny" where
  "z_nullable z = ZodNullable z (zod_description z)"

text \<open>\<open>datetime()\<close>, \<open>int()\<close>, \<open>min(n)\<close> and \<open>max(n)\<close> append a check; on an array
  \<open>min\<close> and \<open>max\<close> set \<open>minLength\<close> and \<open>maxLength\<close>. The converter calls each of them
  on the class it belongs to only; on another class the model leaves the schema as it is.\<close>

fun datetime :: "ZodTypeAny \<Rightarrow> ZodTypeAny" where
  "datetime (ZodString cs d) = ZodString (cs @ [''datetime'']) d"
| "datetime z = z"

fun z_int :: "ZodTypeAny \<Rightarrow> ZodTypeAny" where
  "z_int (ZodNumber cs d) = ZodNumber (cs @ [IntCheck]) d"
| "z_int z = z"

fun z_min :: "ZodTypeAny \<Rightarrow> number \<Rightarrow> ZodTypeAny" where
  "z_min (ZodNumber cs d) n = ZodNumber (cs @ [MinCheck n]) d"
| "z_min (ZodArray e mn mx ex d) n = ZodArray e (Some n) mx ex d"
| "z_min z n = z"

fun z_max :: "ZodTypeAny \<Rightarrow> number \<Rightarrow> ZodTypeAny" where
  "z_max (ZodNumber cs d) n = ZodNumber (cs @ [MaxCheck n]) d"
| "z_max (ZodArray e mn mx ex d) n = ZodArray e mn (Some n) ex d"
| "z_max z n = z"

section \<open>The reverse converter (vertex-schema-to-zod.ts)\<close>

text \<open>A thrown \<open>Error\<close> is a value carrying the message; a function that can throw
  returns \<open>error + ZodTypeAny\<close>.\<close>

datatype error = Error string

text \<open>\<open>xs.map(f)\<close> where \<open>f\<close> may throw: the first exception, in list order, ends the
  loop.\<close>

fun sequence_sum :: "('e + 'a) list \<Rightarrow> 'e + 'a list" where
  "sequence_sum [] = Inr []"
| "sequence_sum (r # rs) =
     (case r of
        Inl e \<Rightarrow> Inl e
      | Inr y \<Rightarrow> (case sequence_sum rs of Inl e \<Rightarrow> Inl e | Inr ys \<Rightarrow> Inr (y # ys)))"

text \<open>\<open>if (schema.nullable) return zodSchema.nullable(); return zodSchema;\<close>\<close>

definition applyNullable :: "ZodTypeAny \<Rightarrow> VertexSchema \<Rightarrow> ZodTypeAny" where
  "applyNullable zodSchema schema =
     (if nullable schema = Some True then z_nullable zodSchema else zodSchema)"

text \<open>The statement \<open>if (description) out = out.describe(description)\<close>, which every
  branch of the converter repeats: the empty string is falsy, so it is not attached.\<close>

definition describeIf :: "ZodTypeAny \<Rightarrow> string option \<Rightarrow> ZodTypeAny" where
  "describeIf out d =
     (case d of None \<Rightarrow> out | Some t \<Rightarrow> if t \<noteq> [] then describe out t else out)"

text \<open>\<open>schema.enum\<close>, or the empty list when the field is absent (an array, also the
  empty one, is truthy): \<open>maybeEnum && maybeEnum.length > 1\<close> is
  \<open>length (enum_list schema) > 1\<close>.\<close>

definition enum_list :: "VertexSchema \<Rightarrow> string list" where
  "enum_list schema = (case enum_values schema of None \<Rightarrow> [] | Some vs \<Rightarrow> vs)"

definition makeStringZod :: "VertexSchema \<Rightarrow> ZodTypeAny" where
  "makeStringZod schema =
     (if length (enum_list schema) > 1 then
        applyNullable (describeIf (z_enum (enum_list schema)) (description schema)) schema
      else if length (enum_list schema) = 1 then
        applyNullable
          (describeIf (z_literal (JString (enum_list schema ! 0))) (description schema)) schema
      else
        (let strZod = z_string;
             strZod = (if format schema = Some ''date-time'' then datetime strZod else strZod);
             strZod = describeIf strZod (description schema)
         in applyNullable strZod schema))"

definition makeNumberZod :: "VertexSchema \<Rightarrow> ZodTypeAny" where
  "makeNumberZod schema =
     (let numZod = z_number;
          numZod = (if schema_type schema = Some INTEGER then z_int numZod else numZod);
          numZod = (case minimum schema of Some m \<Rightarrow> z_min numZod m | None \<Rightarrow> numZod);
          numZod = (case maximum schema of Some m \<Rightarrow> z_max numZod m | None \<Rightarrow> numZod);
          numZod = describeIf numZod (description schema)
      in applyNullable numZod schema)"

definition makeBooleanZod :: "VertexSchema \<Rightarrow> ZodTypeAny" where
  "makeBooleanZod schema =
     applyNullable (describeIf z_boolean (description schema)) schema"

text \<open>\<open>schema.anyOf\<close>, or the empty list when the field is absent: the test
  \<open>schema.anyOf && schema.anyOf.length > 0\<close> is \<open>anyOf_list schema \<noteq> []\<close>. In the same
  way the defaults \<open>properties = {}\<close> and \<open>required = []\<close> of \<open>makeObjectZod\<close>.\<close>

definition anyOf_list :: "VertexSchema \<Rightarrow> VertexSchema list" where
  "anyOf_list schema = (case anyOf schema of None \<Rightarrow> [] | Some subs \<Rightarrow> subs)"

definition properties_list :: "VertexSchema \<Rightarrow> (string \<times> VertexSchema) list" where
  "properties_list schema = (case properties schema of None \<Rightarrow> [] | Some ps \<Rightarrow> ps)"

definition required_list :: "VertexSchema \<Rightarrow> string list" where
  "required_list schema = (case required schema of None \<Rightarrow> [] | Some ks \<Rightarrow> ks)"

text \<open>The assignment \<open>shape[key] = zodField\<close> of \<open>makeObjectZod\<close>, on the object that
  starts as \<open>{}\<close>. The list is the own enumerable properties of \<open>shape\<close> in their
  order, which is all that \<open>z.object\<close> reads of it. For the key \<open>__proto__\<close> the
  assignment runs the setter that \<open>shape\<close> inherits from \<open>Object.prototype\<close>: it makes
  \<open>zodField\<close> the prototype of \<open>shape\<close> and creates no property. For any other key it
  creates the property (the keys of \<open>properties\<close> are distinct, so it never overwrites
  one). After a key \<open>__proto__\<close> the later assignments find the zod schema on the
  prototype chain; when a later key names an accessor without a setter there (such as
  \<open>description\<close>), strict-mode code gets a \<open>TypeError\<close> of the engine. That exception is
  not one the converter throws and is not modelled: here the property is created.\<close>

definition set_field ::
  "(string \<times> ZodTypeAny) list \<Rightarrow> string \<Rightarrow> ZodTypeAny \<Rightarrow> (string \<times> ZodTypeAny) list"
where
  "set_field shape key zodField =
     (if key = ''__proto__'' then shape else shape @ [(key, zodField)])"

lemma size_anyOf_list: "sub \<in> set (anyOf_list schema) \<Longrightarrow> size sub < size schema"
  by (cases schema)
     (auto simp: anyOf_list_def less_Suc_eq_le
       dest!: size_list_estimation'[where f = size, OF _ order_refl] split: option.splits)

lemma size_items: "items schema = Some sub \<Longrightarrow> size sub < size schema"
  by (cases schema) auto

lemma size_properties_list:
  "kv \<in> set (properties_list schema) \<Longrightarrow> size (snd kv) < size schema"
  by (cases schema; cases kv)
     (auto simp: properties_list_def less_Suc_eq_le
       dest!: size_list_estimation'[where f = "size_prod (\<lambda>_. 0) size", OF _ order_refl]
       split: option.splits)

function vertexSchemaToZod :: "VertexSchema \<Rightarrow> error + ZodTypeAny"
  and makeArrayZod :: "VertexSchema \<Rightarrow> error + ZodTypeAny"
  and makeObjectZod :: "VertexSchema \<Rightarrow> error + ZodTypeAny"
where
  "vertexSchemaToZod schema =
     (if anyOf_list schema \<noteq> [] then
        (case sequence_sum (map (\<lambda>sub. vertexSchemaToZod sub) (anyOf_list schema)) of
           Inl e \<Rightarrow> Inl e
         | Inr unionVariants \<Rightarrow>
             (let unionSchema = z_union unionVariants;
                  unionSchema = describeIf unionSchema (description schema)
              in Inr (applyNullable unionSchema schema)))
      else
        (case schema_type schema of
           Some STRING \<Rightarrow> Inr (makeStringZod schema)
         | Some NUMBER \<Rightarrow> Inr (makeNumberZod schema)
         | Some INTEGER \<Rightarrow> Inr (makeNumberZod schema)
         | Some BOOLEAN \<Rightarrow> Inr (makeBooleanZod schema)
         | Some ARRAY \<Rightarrow> makeArrayZod schema
         | Some OBJECT \<Rightarrow> makeObjectZod schema
         | None \<Rightarrow> Inl (Error ''Unsupported or missing schema.type: undefined'')))"
| "makeArrayZod schema =
     (case items schema of
        None \<Rightarrow> Inl (Error (''ARRAY type schema must have 'items'' @ [CHR 0x27]))
      | Some sub \<Rightarrow>
          (case vertexSchemaToZod sub of
             Inl e \<Rightarrow> Inl e
           | Inr elementZod \<Rightarrow>
               (let arrZod = z_array elementZod;
                    arrZod = (case minItems schema of Some n \<Rightarrow> z_min arrZod n | None \<Rightarrow> arrZod);
                    arrZod = (case maxItems schema of Some n \<Rightarrow> z_max arrZod n | None \<Rightarrow> arrZod);
                    arrZod = describeIf arrZod (description schema)
                in Inr (applyNullable arrZod schema))))"
| "makeObjectZod schema =
     (case sequence_sum
             (map (\<lambda>kv. case vertexSchemaToZod (snd kv) of
                          Inl e \<Rightarrow> Inl e
                        | Inr zodField \<Rightarrow>
                            Inr (fst kv,
                                 if fst kv \<notin> set (required_list schema)
                                 then z_optional zodField else zodField))
                  (properties_list schema)) of
        Inl e \<Rightarrow> Inl e
      | Inr fields \<Rightarrow>
          (let shape = foldl (\<lambda>shape kf. set_field shape (fst kf) (snd kf)) [] fields;
               objectZod = z_object shape;
               objectZod = describeIf objectZod (description schema)
           in Inr (applyNullable objectZod schema)))"
  by pat_completeness auto
termination
  by (relation "measure (\<lambda>x. case x of
         Inl schema \<Rightarrow> 2 * size schema + 1
       | Inr (Inl schema) \<Rightarrow> 2 * size schema
       | Inr (Inr schema) \<Rightarrow> 2 * size schema)")
     (auto dest: size_anyOf_list size_items size_properties_list)

declare vertexSchemaToZod.simps [simp del] makeArrayZod.simps [simp del]
  makeObjectZod.simps [simp del]

section \<open>Validation (zod's \<open>safeParse(v).success\<close>)\<close>

text \<open>
  \<open>accepts chk ext z v\<close> is \<open>z.safeParse(v).success\<close>. Two parts of zod are parameters:
  \<open>chk kind s\<close> says whether the string \<open>s\<close> passes the string check \<open>kind\<close> (for
  \<open>datetime\<close>, zod's ISO-8601 date-time pattern), and \<open>ext typeName v\<close> is the validation
  of a schema class that neither converter knows. An object schema reads \<open>data[key]\<close>
  for each key of its shape and ignores the other keys of the data. A discriminated
  union accepts an object that one of its options accepts (each option checks its own
  discriminator literal).
\<close>

text \<open>\<open>data[key]\<close>: the own property when the object has one, and otherwise what the
  prototype chain gives. \<open>Object.prototype\<close> has the accessor \<open>__proto__\<close> and the
  methods listed here as its own properties, so for these keys a plain object that lacks
  the key does not read as \<open>undefined\<close>: \<open>__proto__\<close> reads as the prototype
  (\<open>null\<close> on \<open>Object.prototype\<close> itself) and a method as a function.\<close>

definition object_prototype_methods :: "string list" where
  "object_prototype_methods =
     [''constructor'', ''hasOwnProperty'', ''isPrototypeOf'', ''propertyIsEnumerable'',
      ''toLocaleString'', ''toString'', ''valueOf'', ''__defineGetter__'',
      ''__defineSetter__'', ''__lookupGetter__'', ''__lookupSetter__'']"

definition prototype_lookup :: "string \<Rightarrow> jsvalue" where
  "prototype_lookup k =
     (if k = ''__proto__'' then JNull
      else if k \<in> set object_prototype_methods then JFunction
      else JUndefined)"

definition lookup :: "(string \<times> jsvalue) list \<Rightarrow> string \<Rightarrow> jsvalue" where
  "lookup kvs k =
     (case map_of kvs k of
        Some v \<Rightarrow> v
      | None \<Rightarrow> if k = ''__proto__'' then JObjectPrototype else prototype_lookup k)"

fun number_check :: "number \<Rightarrow> ZodNumberCheck \<Rightarrow> bool" where
  "number_check x IntCheck = (of_int \<lfloor>x\<rfloor> = x)"
| "number_check x (MinCheck m) = (m \<le> x)"
| "number_check x (MaxCheck m) = (x \<le> m)"

definition length_ok :: "nat \<Rightarrow> number option \<Rightarrow> number option \<Rightarrow> number option \<Rightarrow> bool" where
  "length_ok n mn mx ex =
     ((case ex of None \<Rightarrow> True | Some e \<Rightarrow> of_nat n = e) \<and>
      (case mn of None \<Rightarrow> True | Some m \<Rightarrow> m \<le> of_nat n) \<and>
      (case mx of None \<Rightarrow> True | Some m \<Rightarrow> of_nat n \<le> m))"

fun accepts ::
  "(string \<Rightarrow> string \<Rightarrow> bool) \<Rightarrow> (string \<Rightarrow> jsvalue \<Rightarrow> bool) \<Rightarrow> ZodTypeAny \<Rightarrow> jsvalue \<Rightarrow> bool"
where
  "accepts chk ext (ZodString cs d) v =
     (case v of JString s \<Rightarrow> list_all (\<lambda>c. chk c s) cs | _ \<Rightarrow> False)"
| "accepts chk ext (ZodNumber cs d) v =
     (case v of JNumber x \<Rightarrow> list_all (number_check x) cs | _ \<Rightarrow> False)"
| "accepts chk ext (ZodBoolean d) v = (case v of JBool b \<Rightarrow> True | _ \<Rightarrow> False)"
| "accepts chk ext (ZodNull d) v = (v = JNull)"
| "accepts chk ext (ZodLiteral w d) v = (v = w)"
| "accepts chk ext (ZodEnum vs d) v = (case v of JString s \<Rightarrow> s \<in> set vs | _ \<Rightarrow> False)"
| "accepts chk ext (ZodArray e mn mx ex d) v =
     (case v of
        JArray xs \<Rightarrow> length_ok (length xs) mn mx ex \<and> list_all (\<lambda>x. accepts chk ext e x) xs
      | _ \<Rightarrow> False)"
| "accepts chk ext (ZodObject shape d) v =
     (case v of
        JObject kvs \<Rightarrow> list_all (\<lambda>kt. accepts chk ext (snd kt) (lookup kvs (fst kt))) shape
      | JObjectPrototype \<Rightarrow>
          list_all (\<lambda>kt. accepts chk ext (snd kt) (prototype_lookup (fst kt))) shape
      | _ \<Rightarrow> False)"
| "accepts chk ext (ZodUnion opts d) v = list_ex (\<lambda>opt. accepts chk ext opt v) opts"
| "accepts chk ext (ZodDiscriminatedUnion k opts d) v =
     (case v of
        JObject kvs \<Rightarrow> list_ex (\<lambda>opt. accepts chk ext opt v) opts
      | JObjectPrototype \<Rightarrow> list_ex (\<lambda>opt. accepts chk ext opt v) opts
      | _ \<Rightarrow> False)"
| "accepts chk ext (ZodOptional t d) v = (v = JUndefined \<or> accepts chk ext t v)"
| "accepts chk ext (ZodNullable t d) v = (v = JNull \<or> accepts chk ext t v)"
| "accepts chk ext (ZodLazy t d) v = accepts chk ext t v"
| "accepts chk ext (ZodOther k d) v = ext k v"

section \<open>The forward converter (zod-to-vertex-schema.ts)\<close>

text \<open>Modelled from the spec: the error \<open>UnsupportedSourceConstruct\<close> of the forward
  converter (section 7), which names the construct that cannot be converted: the kind
  of a string check, the type of a literal, the class of a schema.\<close>

datatype forward_error = UnsupportedSourceConstruct string

text \<open>Modelled from the spec: the two wrappers (section 4.1, steps 1 and 2). The
  result of a wrapper is the result of the wrapped schema; the description of the
  wrapper, when it has one, replaces the one of the result, and a nullable wrapper sets
  \<open>nullable\<close>.\<close>

fun with_description :: "string option \<Rightarrow> VertexSchema \<Rightarrow> VertexSchema" where
  "with_description d (VertexSchema ty fmt desc nul its en props req ex po ao mi ma mn mx) =
     VertexSchema ty fmt (case d of None \<Rightarrow> desc | Some t \<Rightarrow> Some t) nul its en props req ex po ao
       mi ma mn mx"

fun with_nullable :: "VertexSchema \<Rightarrow> VertexSchema" where
  "with_nullable (VertexSchema ty fmt desc nul its en props req ex po ao mi ma mn mx) =
     VertexSchema ty fmt desc (Some True) its en props req ex po ao mi ma mn mx"

text \<open>Modelled from the spec: the checks of a string and of a number, and the type of
  a literal (section 4.1, steps 4, 5 and 8). The string checks are taken in their order:
  \<open>datetime\<close> and \<open>date\<close> set \<open>format\<close>, any other check is an error that names its
  kind. The bounds of a number are copied as they are.\<close>

fun string_format :: "string list \<Rightarrow> string option \<Rightarrow> forward_error + string option" where
  "string_format [] fmt = Inr fmt"
| "string_format (c # cs) fmt =
     (if c = ''datetime'' then string_format cs (Some ''date-time'')
      else if c = ''date'' then string_format cs (Some ''date'')
      else Inl (UnsupportedSourceConstruct c))"

fun number_minimum :: "ZodNumberCheck list \<Rightarrow> number option" where
  "number_minimum [] = None"
| "number_minimum (MinCheck m # cs) = Some m"
| "number_minimum (c # cs) = number_minimum cs"

fun number_maximum :: "ZodNumberCheck list \<Rightarrow> number option" where
  "number_maximum [] = None"
| "number_maximum (MaxCheck m # cs) = Some m"
| "number_maximum (c # cs) = number_maximum cs"

fun literal_type :: "jsvalue \<Rightarrow> string" where
  "literal_type JUndefined = ''undefined''"
| "literal_type JNull = ''null''"
| "literal_type (JBool b) = ''boolean''"
| "literal_type (JNumber x) = ''number''"
| "literal_type (JString s) = ''string''"
| "literal_type (JArray xs) = ''object''"
| "literal_type (JObject kvs) = ''object''"
| "literal_type JFunction = ''function''"
| "literal_type JObjectPrototype = ''object''"

text \<open>Modelled from the spec: the optionality of a field (section 4.1, step 10). A field
  is optional when its schema is wrapped in an optional modifier, directly or under a
  nullable modifier.\<close>

fun wrapped_optional :: "ZodTypeAny \<Rightarrow> bool" where
  "wrapped_optional (ZodOptional t d) = True"
| "wrapped_optional (ZodNullable t d) = wrapped_optional t"
| "wrapped_optional z = False"

text \<open>Modelled from the spec: the forward converter \<open>zodToVertexSchema\<close> of
  zod-to-vertex-schema.ts, which is not among the sources (its tests are). The
  equations follow the dispatch policy of section 4.1 of the specification, step by
  step and in its order: optional wrapper, nullable wrapper, null, string, number,
  boolean, enum, literal, array, object, union, discriminated union, lazy, any other
  class.\<close>

fun zodToVertexSchema :: "ZodTypeAny \<Rightarrow> forward_error + VertexSchema" where
  "zodToVertexSchema (ZodOptional t d) =
     (case zodToVertexSchema t of
        Inl e \<Rightarrow> Inl e
      | Inr inner \<Rightarrow> Inr (with_description d inner))"
| "zodToVertexSchema (ZodNullable t d) =
     (case zodToVertexSchema t of
        Inl e \<Rightarrow> Inl e
      | Inr inner \<Rightarrow> Inr (with_nullable (with_description d inner)))"
| "zodToVertexSchema (ZodNull d) =
     Inr (VertexSchema (Some STRING) None d (Some True) None None None None None None None
            None None None None)"
| "zodToVertexSchema (ZodString cs d) =
     (case string_format cs None of
        Inl e \<Rightarrow> Inl e
      | Inr fmt \<Rightarrow>
          Inr (VertexSchema (Some STRING) fmt d None None None None None None None None
                 None None None None))"
| "zodToVertexSchema (ZodNumber cs d) =
     Inr (VertexSchema (Some (if IntCheck \<in> set cs then INTEGER else NUMBER)) None d None None
            None None None None None None None None (number_minimum cs) (number_maximum cs))"
| "zodToVertexSchema (ZodBoolean d) =
     Inr (VertexSchema (Some BOOLEAN) None d None None None None None None None None
            None None None None)"
| "zodToVertexSchema (ZodEnum vs d) =
     Inr (VertexSchema (Some STRING) None d None None (Some vs) None None None None None
            None None None None)"
| "zodToVertexSchema (ZodLiteral v d) =
     (case v of
        JString s \<Rightarrow>
          Inr (VertexSchema (Some STRING) None d None None (Some [s]) None None None None None
                 None None None None)
      | _ \<Rightarrow> Inl (UnsupportedSourceConstruct (literal_type v @ '' literal'')))"
| "zodToVertexSchema (ZodArray element minLength maxLength exactLength d) =
     (case zodToVertexSchema element of
        Inl e \<Rightarrow> Inl e
      | Inr its \<Rightarrow>
          Inr (VertexSchema (Some ARRAY) None d None (Some its) None None None None None None
                 (case exactLength of Some n \<Rightarrow> Some n | None \<Rightarrow> minLength)
                 (case exactLength of Some n \<Rightarrow> Some n | None \<Rightarrow> maxLength)
                 None None))"
| "zodToVertexSchema (ZodObject shape d) =
     (case sequence_sum
             (map (\<lambda>kt. case zodToVertexSchema (snd kt) of
                          Inl e \<Rightarrow> Inl e
                        | Inr v \<Rightarrow> Inr (fst kt, v)) shape) of
        Inl e \<Rightarrow> Inl e
      | Inr props \<Rightarrow>
          Inr (VertexSchema (Some OBJECT) None d None None None (Some props)
                 (Some (map fst (filter (\<lambda>kt. \<not> wrapped_optional (snd kt)) shape)))
                 None (Some (map fst shape)) None None None None None))"
| "zodToVertexSchema (ZodUnion opts d) =
     (case sequence_sum (map zodToVertexSchema opts) of
        Inl e \<Rightarrow> Inl e
      | Inr branches \<Rightarrow>
          Inr (VertexSchema None None d None None None None None None None (Some branches)
                 None None None None))"
| "zodToVertexSchema (ZodDiscriminatedUnion k opts d) =
     (case sequence_sum (map zodToVertexSchema opts) of
        Inl e \<Rightarrow> Inl e
      | Inr branches \<Rightarrow>
          Inr (VertexSchema None None d None None None None None None None (Some branches)
                 None None None None))"
| "zodToVertexSchema (ZodLazy t d) = Inl (UnsupportedSourceConstruct ''recursive schema'')"
| "zodToVertexSchema (ZodOther k d) = Inl (UnsupportedSourceConstruct k)"

section \<open>Example schemas\<close>

text \<open>The schemas that the two test suites convert, the values they validate, and a
  few variants of them.\<close>

definition color_enum :: VertexSchema where
  "color_enum = VertexSchema (Some STRING) None (Some ''Color enum'') None None
     (Some [''RED'', ''GREEN'', ''BLUE'']) None None None None None None None None None"

definition one_value_enum :: VertexSchema where
  "one_value_enum = VertexSchema (Some STRING) None None None None
     (Some [''ONE_VALUE_ONLY'']) None None None None None None None None None"

definition datetime_string :: VertexSchema where
  "datetime_string = VertexSchema (Some STRING) (Some ''date-time'') (Some ''A datetime string'')
     None None None None None None None None None None None None"

definition date_string :: VertexSchema where
  "date_string = VertexSchema (Some STRING) (Some ''date'') None
     None None None None None None None None None None None None"

definition nullable_string :: VertexSchema where
  "nullable_string = VertexSchema (Some STRING) None None (Some True) None None None None None
     None None None None None None"

definition string_or_number :: VertexSchema where
  "string_or_number = VertexSchema None None (Some ''Union of string or number'') None None None
     None None None None
     (Some [VertexSchema (Some STRING) None None None None None None None None None None None
              None None None,
            VertexSchema (Some NUMBER) None None None None None None None None None None None
              None None None])
     None None None None"

definition nullable_string_or_number :: VertexSchema where
  "nullable_string_or_number = VertexSchema None None (Some ''Union of string or number'')
     (Some True) None None None None None None
     (Some [VertexSchema (Some STRING) None None None None None None None None None None None
              None None None,
            VertexSchema (Some NUMBER) None None None None None None None None None None None
              None None None])
     None None None None"

definition person_object :: VertexSchema where
  "person_object = VertexSchema (Some OBJECT) None (Some ''Person object'') None None None
     (Some [(''name'', VertexSchema (Some STRING) None None None None None None None None None
                        None None None None None),
            (''age'', VertexSchema (Some INTEGER) None None None None None None None None None
                        None None None None None),
            (''nick'', VertexSchema (Some STRING) None None None None None None None None None
                        None None None None None)])
     (Some [''name'', ''age'']) None None None None None None None"

definition plain_string :: VertexSchema where
  "plain_string = VertexSchema (Some STRING) None None None None None None None None None
     None None None None None"

definition proto_key_object :: VertexSchema where
  "proto_key_object = VertexSchema (Some OBJECT) None None None None None
     (Some [(''__proto__'', plain_string)]) (Some [''__proto__'']) None None None None None
     None None"



definition user_object :: ZodTypeAny where
  "user_object = ZodObject
     [(''name'', ZodString [] (Some ''Name field'')),
      (''age'', ZodNumber [MinCheck 10, MaxCheck 100] (Some ''Age field''))]
     (Some ''A user object'')"

definition user_vertex :: VertexSchema where
  "user_vertex = VertexSchema (Some OBJECT) None (Some ''A user object'') None None None
     (Some [(''name'', VertexSchema (Some STRING) None (Some ''Name field'') None None None None
                        None None None None None None None None),
            (''age'', VertexSchema (Some NUMBER) None (Some ''Age field'') None None None None
                        None None None None None None (Some 10) (Some 100))])
     (Some [''name'', ''age'']) None (Some [''name'', ''age'']) None None None None None"


definition ordered_object :: ZodTypeAny where
  "ordered_object = ZodObject
     [(''id'', ZodString [] None),
      (''count'', ZodOptional (ZodNumber [] None) None),
      (''createdAt'', ZodString [''datetime''] None)]
     (Some ''An object schema'')"

definition ordered_vertex :: VertexSchema where
  "ordered_vertex = VertexSchema (Some OBJECT) None (Some ''An object schema'') None None None
     (Some [(''id'', VertexSchema (Some STRING) None None None None None None
                        None None None None None None None None),
            (''count'', VertexSchema (Some NUMBER) None None None None None None
                        None None None None None None None None),
            (''createdAt'', VertexSchema (Some STRING) (Some ''date-time'') None None None None
                        None None None None None None None None None)])
     (Some [''id'', ''createdAt'']) None (Some [''id'', ''count'', ''createdAt'']) None None None
     None None"

definition nested_object :: ZodTypeAny where
  "nested_object = ZodObject
     [(''user'', ZodObject
         [(''id'', ZodNumber [IntCheck] None),
          (''username'', ZodOptional (ZodString [] None) None)] None),
      (''tags'', ZodOptional
         (ZodArray (ZodObject [(''b'', ZodString [] None), (''a'', ZodBoolean None)] None)
            None None None None) None)]
     (Some ''Nested example'')"

definition nested_vertex :: VertexSchema where
  "nested_vertex = VertexSchema (Some OBJECT) None (Some ''Nested example'') None None None
     (Some [(''user'', VertexSchema (Some OBJECT) None None None None None
                (Some [(''id'', VertexSchema (Some INTEGER) None None None None None None
                                  None None None None None None None None),
                       (''username'', VertexSchema (Some STRING) None None None None None None
                                  None None None None None None None None)])
                (Some [''id'']) None (Some [''id'', ''username'']) None None None None None),
            (''tags'', VertexSchema (Some ARRAY) None None None
                (Some (VertexSchema (Some OBJECT) None None None None None
                   (Some [(''b'', VertexSchema (Some STRING) None None None None None None
                                    None None None None None None None None),
                          (''a'', VertexSchema (Some BOOLEAN) None None None None None None
                                    None None None None None None None None)])
                   (Some [''b'', ''a'']) None (Some [''b'', ''a'']) None None None None None))
                None None None None None None None None None None)])
     (Some [''user'']) None (Some [''user'', ''tags'']) None None None None None"

definition valid_user :: jsvalue where
  "valid_user = JObject [(''name'', JString ''Bob''), (''age'', JNumber 55)]"

definition invalid_user :: jsvalue where
  "invalid_user = JObject [(''name'', JString ''Bob''), (''age'', JNumber 9)]"

section \<open>Notions used in the statements\<close>

text \<open>The description that \<open>describeIf\<close> leaves on a node created without one.\<close>

definition attached :: "string option \<Rightarrow> string option" where
  "attached d = (case d of None \<Rightarrow> None | Some t \<Rightarrow> if t \<noteq> [] then Some t else None)"







text \<open>All the nodes directly under a node of a target schema, whatever its type.\<close>

definition subschemas :: "VertexSchema \<Rightarrow> VertexSchema list" where
  "subschemas schema =
     (case items schema of None \<Rightarrow> [] | Some sub \<Rightarrow> [sub]) @
     map snd (properties_list schema) @ anyOf_list schema"

lemma size_subschemas: "sub \<in> set (subschemas schema) \<Longrightarrow> size sub < size schema"
  by (auto simp: subschemas_def
      dest: size_anyOf_list size_items size_items[OF sym] size_properties_list
      split: option.splits)

text \<open>In every OBJECT node of the tree, \<open>propertyOrdering\<close> is the sequence of the keys
  of \<open>properties\<close>.\<close>

function ordering_matches_properties :: "VertexSchema \<Rightarrow> bool" where
  "ordering_matches_properties schema =
     ((if schema_type schema = Some OBJECT
       then properties schema \<noteq> None \<and>
            propertyOrdering schema = Some (map fst (properties_list schema))
       else True) \<and>
      list_all ordering_matches_properties (subschemas schema))"
  by pat_completeness auto
termination
  by (relation "measure size") (auto dest: size_subschemas)

declare ordering_matches_properties.simps [simp del]

lemma size_zip_option:
  assumes "ob \<in> set (zip opts bs)"
  shows "size (fst ob) < Suc (size_list size opts)"
proof -
  have "fst ob \<in> set opts"
    using assms set_zip_leftD[of "fst ob" "snd ob" opts bs] by simp
  then have "size (fst ob) \<le> size_list size opts"
    by (rule size_list_estimation'[OF _ order_refl])
  then show ?thesis
    by simp
qed

lemma size_zip_field:
  assumes "kp \<in> set (zip shape ps)"
  shows "size (snd (fst kp)) < Suc (size_list (size_prod (\<lambda>_. 0) size) shape)"
proof -
  have "fst kp \<in> set shape"
    using assms set_zip_leftD[of "fst kp" "snd kp" shape ps] by simp
  then have "size_prod (\<lambda>_. 0) size (fst kp) \<le> size_list (size_prod (\<lambda>_. 0) size) shape"
    by (rule size_list_estimation'[OF _ order_refl])
  then show ?thesis
    by (cases "fst kp") simp
qed

text \<open>The produced tree follows the declared order of the source tree: the two trees are
  walked together, through wrappers, array elements, object fields and union branches,
  and at every object schema of the source the node produced for it is an OBJECT node
  whose \<open>propertyOrdering\<close> and whose keys of \<open>properties\<close> are the names of the declared
  fields, in the order of the declaration.\<close>

function (sequential) declared_order :: "ZodTypeAny \<Rightarrow> VertexSchema \<Rightarrow> bool" where
  "declared_order (ZodOptional t d) v = declared_order t v"
| "declared_order (ZodNullable t d) v = declared_order t v"
| "declared_order (ZodArray element mn mx ex d) v =
     (case items v of None \<Rightarrow> False | Some sub \<Rightarrow> declared_order element sub)"
| "declared_order (ZodObject shape d) v =
     (schema_type v = Some OBJECT \<and>
      propertyOrdering v = Some (map fst shape) \<and>
      properties v \<noteq> None \<and>
      map fst (properties_list v) = map fst shape \<and>
      list_all (\<lambda>kp. declared_order (snd (fst kp)) (snd (snd kp)))
        (zip shape (properties_list v)))"
| "declared_order (ZodUnion opts d) v =
     (length (anyOf_list v) = length opts \<and>
      list_all (\<lambda>ob. declared_order (fst ob) (snd ob)) (zip opts (anyOf_list v)))"
| "declared_order (ZodDiscriminatedUnion k opts d) v =
     (length (anyOf_list v) = length opts \<and>
      list_all (\<lambda>ob. declared_order (fst ob) (snd ob)) (zip opts (anyOf_list v)))"
| "declared_order z v = True"
  by pat_completeness auto
termination
  by (relation "measure (\<lambda>p. size (fst p))") (auto dest: size_zip_option size_zip_field)

section \<open>Properties of the reverse converter\<close>

subsection \<open>Validation under \<open>describe\<close> and \<open>nullable\<close>\<close>

lemma accepts_describe [simp]: "accepts chk ext (describe z t) v = accepts chk ext z v"
  by (cases z) simp_all

lemma accepts_describeIf [simp]: "accepts chk ext (describeIf z d) v = accepts chk ext z v"
  by (simp add: describeIf_def split: option.splits)

lemma accepts_z_nullable [simp]:
  "accepts chk ext (z_nullable z) v = (v = JNull \<or> accepts chk ext z v)"
  by (simp add: z_nullable_def)

lemma accepts_applyNullable:
  "accepts chk ext (applyNullable z schema) v =
     ((nullable schema = Some True \<and> v = JNull) \<or> accepts chk ext z v)"
  by (auto simp: applyNullable_def)

lemma vertexSchemaToZod_STRING:
  "anyOf_list schema = [] \<Longrightarrow> schema_type schema = Some STRING \<Longrightarrow>
     vertexSchemaToZod schema = Inr (makeStringZod schema)"
  by (simp add: vertexSchemaToZod.simps)

subsection \<open>STRING nodes with an enum\<close>

text \<open>
  C5. A STRING node (a node without a non-empty \<open>anyOf\<close> whose \<open>type\<close> is STRING) that
  has an \<open>enum\<close> field converts without an error. With more than one value the result
  is a \<open>ZodEnum\<close> over the values as given, in their order, and the strings it accepts
  are exactly those values; with exactly one value the result is a \<open>ZodLiteral\<close> of
  that string, and the only string it accepts is that value. (The description, when not
  empty, is on the node; \<open>applyNullable\<close> wraps it when \<open>nullable\<close> is true.)
\<close>

theorem string_enum_reverse:
  assumes "anyOf_list schema = []" and "schema_type schema = Some STRING"
    and "enum_values schema = Some vals"
  shows "\<exists>r. vertexSchemaToZod schema = Inr r \<and>
           (1 < length vals \<longrightarrow>
              (\<exists>d. r = applyNullable (ZodEnum vals d) schema) \<and>
              (\<forall>s. accepts chk ext r (JString s) = (s \<in> set vals))) \<and>
           (length vals = 1 \<longrightarrow>
              (\<exists>d. r = applyNullable (ZodLiteral (JString (vals ! 0)) d) schema) \<and>
              (\<forall>s. accepts chk ext r (JString s) = (s = vals ! 0)))"
proof -
  have conv: "vertexSchemaToZod schema = Inr (makeStringZod schema)"
    using assms(1,2) by (rule vertexSchemaToZod_STRING)
  have el: "enum_list schema = vals"
    using assms(3) by (simp add: enum_list_def)
  have many: "makeStringZod schema =
        applyNullable (describeIf (ZodEnum vals None) (description schema)) schema"
    if "1 < length vals"
    using that by (simp add: makeStringZod_def el z_enum_def)
  have one: "makeStringZod schema =
        applyNullable (describeIf (ZodLiteral (JString (vals ! 0)) None) (description schema)) schema"
    if "length vals = 1"
    using that by (simp add: makeStringZod_def el z_literal_def)
  have dE: "\<exists>d. describeIf (ZodEnum vals None) (description schema) = ZodEnum vals d"
    by (auto simp: describeIf_def split: option.splits)
  have dL: "\<exists>d. describeIf (ZodLiteral (JString (vals ! 0)) None) (description schema)
               = ZodLiteral (JString (vals ! 0)) d"
    by (auto simp: describeIf_def split: option.splits)
  have "(\<exists>d. makeStringZod schema = applyNullable (ZodEnum vals d) schema) \<and>
        (\<forall>s. accepts chk ext (makeStringZod schema) (JString s) = (s \<in> set vals))"
    if "1 < length vals"
    using many[OF that] dE by (auto simp: accepts_applyNullable)
  moreover have "(\<exists>d. makeStringZod schema =
                       applyNullable (ZodLiteral (JString (vals ! 0)) d) schema) \<and>
        (\<forall>s. accepts chk ext (makeStringZod schema) (JString s) = (s = vals ! 0))"
    if "length vals = 1"
    using one[OF that] dL by (auto simp: accepts_applyNullable)
  ultimately show ?thesis
    using conv by blast
qed

theorem string_enum_reverse_witness:
  "anyOf_list color_enum = [] \<and> schema_type color_enum = Some STRING \<and>
   enum_values color_enum = Some [''RED'', ''GREEN'', ''BLUE''] \<and>
   1 < length [''RED'', ''GREEN'', ''BLUE''] \<and>
   (\<exists>r. vertexSchemaToZod color_enum = Inr r \<and>
        accepts (\<lambda>k s. True) (\<lambda>k v. False) r (JString ''RED'') \<and>
        \<not> accepts (\<lambda>k s. True) (\<lambda>k v. False) r (JString ''PURPLE'')) \<and>
   anyOf_list one_value_enum = [] \<and> schema_type one_value_enum = Some STRING \<and>
   enum_values one_value_enum = Some [''ONE_VALUE_ONLY''] \<and>
   length [''ONE_VALUE_ONLY''] = 1 \<and>
   (\<exists>r. vertexSchemaToZod one_value_enum = Inr r \<and>
        accepts (\<lambda>k s. True) (\<lambda>k v. False) r (JString ''ONE_VALUE_ONLY'') \<and>
        \<not> accepts (\<lambda>k s. True) (\<lambda>k v. False) r (JString ''foo''))"
proof -
  have a: "anyOf_list color_enum = []" "schema_type color_enum = Some STRING"
    "enum_values color_enum = Some [''RED'', ''GREEN'', ''BLUE'']"
    by (simp_all add: color_enum_def anyOf_list_def)
  have b: "anyOf_list one_value_enum = []" "schema_type one_value_enum = Some STRING"
    "enum_values one_value_enum = Some [''ONE_VALUE_ONLY'']"
    by (simp_all add: one_value_enum_def anyOf_list_def)
  obtain r where r: "vertexSchemaToZod color_enum = Inr r"
    and rs: "\<And>s. accepts (\<lambda>k s. True) (\<lambda>k v. False) r (JString s)
               = (s \<in> set [''RED'', ''GREEN'', ''BLUE''])"
    using string_enum_reverse [OF a, of "\<lambda>k s. True" "\<lambda>k v. False"] by fastforce
  have c1: "\<exists>r. vertexSchemaToZod color_enum = Inr r \<and>
        accepts (\<lambda>k s. True) (\<lambda>k v. False) r (JString ''RED'') \<and>
        \<not> accepts (\<lambda>k s. True) (\<lambda>k v. False) r (JString ''PURPLE'')"
    using r by (simp add: rs)
  obtain q where q: "vertexSchemaToZod one_value_enum = Inr q"
    and qs: "\<And>s. accepts (\<lambda>k s. True) (\<lambda>k v. False) q (JString s)
               = (s = [''ONE_VALUE_ONLY''] ! 0)"
    using string_enum_reverse [OF b, of "\<lambda>k s. True" "\<lambda>k v. False"] by fastforce
  have c2: "\<exists>r. vertexSchemaToZod one_value_enum = Inr r \<and>
        accepts (\<lambda>k s. True) (\<lambda>k v. False) r (JString ''ONE_VALUE_ONLY'') \<and>
        \<not> accepts (\<lambda>k s. True) (\<lambda>k v. False) r (JString ''foo'')"
    using q by (simp add: qs)
  show ?thesis
    using a b c1 c2 by simp
qed

subsection \<open>STRING nodes without an enum\<close>

lemma describeIf_ZodString: "\<exists>d. describeIf (ZodString cs None) t = ZodString cs d"
  by (auto simp: describeIf_def split: option.splits)

text \<open>
  C8. A STRING node without an \<open>enum\<close> field converts to a \<open>ZodString\<close>. When \<open>format\<close>
  is \<open>date-time\<close> the node carries the one check \<open>datetime\<close>, so the strings it accepts
  are those that pass zod's date-time check; for any other \<open>format\<close>, \<open>date\<close> among
  them, and for none, the node carries no check and accepts every string.
\<close>

theorem string_format_reverse:
  assumes "anyOf_list schema = []" and "schema_type schema = Some STRING"
    and "enum_values schema = None"
  shows "\<exists>r. vertexSchemaToZod schema = Inr r \<and>
           (format schema = Some ''date-time'' \<longrightarrow>
              (\<exists>d. r = applyNullable (ZodString [''datetime''] d) schema) \<and>
              (\<forall>s. accepts chk ext r (JString s) = chk ''datetime'' s)) \<and>
           (format schema \<noteq> Some ''date-time'' \<longrightarrow>
              (\<exists>d. r = applyNullable (ZodString [] d) schema) \<and>
              (\<forall>s. accepts chk ext r (JString s)))"
proof -
  have conv: "vertexSchemaToZod schema = Inr (makeStringZod schema)"
    using assms(1,2) by (rule vertexSchemaToZod_STRING)
  have el: "enum_list schema = []"
    using assms(3) by (simp add: enum_list_def)
  have dt: "makeStringZod schema =
        applyNullable (describeIf (ZodString [''datetime''] None) (description schema)) schema"
    if "format schema = Some ''date-time''"
    using that by (simp add: makeStringZod_def el z_string_def)
  have plain: "makeStringZod schema =
        applyNullable (describeIf (ZodString [] None) (description schema)) schema"
    if "format schema \<noteq> Some ''date-time''"
    using that by (simp add: makeStringZod_def el z_string_def)
  have "(\<exists>d. makeStringZod schema = applyNullable (ZodString [''datetime''] d) schema) \<and>
        (\<forall>s. accepts chk ext (makeStringZod schema) (JString s) = chk ''datetime'' s)"
    if "format schema = Some ''date-time''"
    using dt[OF that] describeIf_ZodString[of "[''datetime'']" "description schema"]
    by (auto simp: accepts_applyNullable)
  moreover have "(\<exists>d. makeStringZod schema = applyNullable (ZodString [] d) schema) \<and>
        (\<forall>s. accepts chk ext (makeStringZod schema) (JString s))"
    if "format schema \<noteq> Some ''date-time''"
    using plain[OF that] describeIf_ZodString[of "[]" "description schema"]
    by (auto simp: accepts_applyNullable)
  ultimately show ?thesis
    using conv by blast
qed

theorem string_format_reverse_witness:
  "anyOf_list datetime_string = [] \<and> schema_type datetime_string = Some STRING \<and>
   enum_values datetime_string = None \<and> format datetime_string = Some ''date-time'' \<and>
   (\<exists>r. vertexSchemaToZod datetime_string = Inr r \<and>
        accepts (\<lambda>k s. s = ''2024-01-01T00:00:00Z'') (\<lambda>k v. False) r
          (JString ''2024-01-01T00:00:00Z'') \<and>
        \<not> accepts (\<lambda>k s. s = ''2024-01-01T00:00:00Z'') (\<lambda>k v. False) r (JString ''hello'')) \<and>
   anyOf_list date_string = [] \<and> schema_type date_string = Some STRING \<and>
   enum_values date_string = None \<and> format date_string \<noteq> Some ''date-time'' \<and>
   (\<exists>r. vertexSchemaToZod date_string = Inr r \<and>
        accepts (\<lambda>k s. s = ''2024-01-01T00:00:00Z'') (\<lambda>k v. False) r (JString ''hello''))"
proof -
  let ?chk = "\<lambda>(k::string) s. s = ''2024-01-01T00:00:00Z''"
  let ?ext = "\<lambda>(k::string) (v::jsvalue). False"
  have a: "anyOf_list datetime_string = []" "schema_type datetime_string = Some STRING"
    "enum_values datetime_string = None"
    by (simp_all add: datetime_string_def anyOf_list_def)
  have af: "format datetime_string = Some ''date-time''"
    by (simp add: datetime_string_def)
  have b: "anyOf_list date_string = []" "schema_type date_string = Some STRING"
    "enum_values date_string = None"
    by (simp_all add: date_string_def anyOf_list_def)
  have bf: "format date_string \<noteq> Some ''date-time''"
    by (simp add: date_string_def)
  obtain r where r: "vertexSchemaToZod datetime_string = Inr r"
    and rs: "\<And>s. accepts ?chk ?ext r (JString s) = ?chk ''datetime'' s"
    using string_format_reverse [OF a, of ?chk ?ext] af by blast
  have c1: "\<exists>r. vertexSchemaToZod datetime_string = Inr r \<and>
        accepts ?chk ?ext r (JString ''2024-01-01T00:00:00Z'') \<and>
        \<not> accepts ?chk ?ext r (JString ''hello'')"
    using r by (simp add: rs)
  obtain q where q: "vertexSchemaToZod date_string = Inr q"
    and qs: "\<And>s. accepts ?chk ?ext q (JString s)"
    using string_format_reverse [OF b, of ?chk ?ext] bf by blast
  have c2: "\<exists>r. vertexSchemaToZod date_string = Inr r \<and> accepts ?chk ?ext r (JString ''hello'')"
    using q qs by blast
  show ?thesis
    using a af b bf c1 c2 by simp
qed

subsection \<open>STRING nodes with an empty enum\<close>

lemma describeIf_ZodString_attached:
  "describeIf (ZodString cs None) t = ZodString cs (attached t)"
  by (simp add: describeIf_def attached_def split: option.splits)

text \<open>
  C9. A STRING node whose \<open>enum\<close> is the empty array converts without an error, to the
  very node that the same schema without the \<open>enum\<close> field converts to: a \<open>ZodString\<close>
  with the \<open>datetime\<close> check when \<open>format\<close> is \<open>date-time\<close> and with no check otherwise
  (then it accepts every string), under \<open>nullable()\<close> when \<open>nullable\<close> is true.
\<close>

theorem string_empty_enum_reverse:
  assumes "ao = None \<or> ao = Some []"
  shows "\<exists>r. vertexSchemaToZod
                 (VertexSchema (Some STRING) fmt desc nul its (Some []) props req ex po ao
                    mi ma mn mx) = Inr r \<and>
               vertexSchemaToZod
                 (VertexSchema (Some STRING) fmt desc nul its None props req ex po ao
                    mi ma mn mx) = Inr r \<and>
               r = (if nul = Some True then z_nullable else id)
                     (ZodString (if fmt = Some ''date-time'' then [''datetime''] else [])
                        (attached desc)) \<and>
               (\<forall>s. accepts chk ext r (JString s) =
                      (fmt = Some ''date-time'' \<longrightarrow> chk ''datetime'' s))"
proof -
  let ?E = "VertexSchema (Some STRING) fmt desc nul its (Some []) props req ex po ao mi ma mn mx"
  let ?N = "VertexSchema (Some STRING) fmt desc nul its None props req ex po ao mi ma mn mx"
  let ?cs = "if fmt = Some ''date-time'' then [''datetime''] else []"
  have noAny: "anyOf_list ?E = []" "anyOf_list ?N = []"
    using assms by (auto simp: anyOf_list_def)
  have convE: "vertexSchemaToZod ?E = Inr (makeStringZod ?E)"
    by (rule vertexSchemaToZod_STRING [OF noAny(1)]) simp
  have convN: "vertexSchemaToZod ?N = Inr (makeStringZod ?N)"
    by (rule vertexSchemaToZod_STRING [OF noAny(2)]) simp
  define d where "d = attached desc"
  have mkE: "makeStringZod ?E = (if nul = Some True then z_nullable else id) (ZodString ?cs d)"
    by (simp add: makeStringZod_def enum_list_def z_string_def applyNullable_def
        describeIf_ZodString_attached d_def)
  have mkN: "makeStringZod ?N = (if nul = Some True then z_nullable else id) (ZodString ?cs d)"
    by (simp add: makeStringZod_def enum_list_def z_string_def applyNullable_def
        describeIf_ZodString_attached d_def)
  have acc: "accepts chk ext ((if nul = Some True then z_nullable else id) (ZodString ?cs d))
               (JString s) = (fmt = Some ''date-time'' \<longrightarrow> chk ''datetime'' s)" for s
    by simp
  show ?thesis
    using convE convN mkE mkN acc unfolding d_def by simp
qed

theorem string_empty_enum_reverse_witness:
  "\<exists>r. vertexSchemaToZod
          (VertexSchema (Some STRING) (Some ''date'') (Some ''text'') None None (Some []) None None
             None None (Some []) None None None None) = Inr r \<and>
        vertexSchemaToZod
          (VertexSchema (Some STRING) (Some ''date'') (Some ''text'') None None None None None
             None None (Some []) None None None None) = Inr r \<and>
        accepts (\<lambda>k s. False) (\<lambda>k v. False) r (JString ''anything'')"
proof -
  have h: "Some [] = None \<or> Some [] = (Some [] :: VertexSchema list option)"
    by simp
  from string_empty_enum_reverse [OF h, of "Some ''date''" "Some ''text''" None None None None
      None None None None None None "\<lambda>k s. False" "\<lambda>k v. False"]
  obtain r where "vertexSchemaToZod
          (VertexSchema (Some STRING) (Some ''date'') (Some ''text'') None None (Some []) None None
             None None (Some []) None None None None) = Inr r"
    and "vertexSchemaToZod
          (VertexSchema (Some STRING) (Some ''date'') (Some ''text'') None None None None None
             None None (Some []) None None None None) = Inr r"
    and "\<And>s. accepts (\<lambda>k s. False) (\<lambda>k v. False) r (JString s) =
              (Some ''date'' = Some ''date-time'' \<longrightarrow> False)"
    by blast
  then show ?thesis
    by simp
qed

subsection \<open>Nullable nodes\<close>

lemma zod_description_describe [simp]: "zod_description (describe z t) = Some t"
  by (cases z) simp_all

lemma zod_description_describeIf:
  "zod_description z = None \<Longrightarrow> zod_description (describeIf z d) = attached d"
  by (simp add: describeIf_def attached_def split: option.splits)

lemma zod_description_z_min [simp]: "zod_description (z_min z n) = zod_description z"
  by (cases z) simp_all

lemma zod_description_z_max [simp]: "zod_description (z_max z n) = zod_description z"
  by (cases z) simp_all

lemma zod_description_z_int [simp]: "zod_description (z_int z) = zod_description z"
  by (cases z) simp_all

lemma zod_description_datetime [simp]: "zod_description (datetime z) = zod_description z"
  by (cases z) simp_all

lemma zod_description_makeStringZod:
  "nullable schema = None \<Longrightarrow> zod_description (makeStringZod schema) = attached (description schema)"
  by (simp add: makeStringZod_def applyNullable_def zod_description_describeIf
      z_enum_def z_literal_def z_string_def Let_def)

lemma zod_description_makeNumberZod:
  "nullable schema = None \<Longrightarrow> zod_description (makeNumberZod schema) = attached (description schema)"
  by (simp add: makeNumberZod_def applyNullable_def zod_description_describeIf
      z_number_def Let_def split: option.splits)

lemma zod_description_makeBooleanZod:
  "nullable schema = None \<Longrightarrow> zod_description (makeBooleanZod schema) = attached (description schema)"
  by (simp add: makeBooleanZod_def applyNullable_def zod_description_describeIf z_boolean_def)

lemma zod_description_makeArrayZod:
  "nullable schema = None \<Longrightarrow> makeArrayZod schema = Inr z \<Longrightarrow>
     zod_description z = attached (description schema)"
  by (auto simp: makeArrayZod.simps[of schema] applyNullable_def zod_description_describeIf
      z_array_def Let_def split: option.splits sum.splits)

lemma zod_description_makeObjectZod:
  "nullable schema = None \<Longrightarrow> makeObjectZod schema = Inr z \<Longrightarrow>
     zod_description z = attached (description schema)"
  by (auto simp: makeObjectZod.simps[of schema] applyNullable_def zod_description_describeIf
      z_object_def Let_def split: option.splits sum.splits)

lemma zod_description_vertexSchemaToZod:
  "nullable schema = None \<Longrightarrow> vertexSchemaToZod schema = Inr z \<Longrightarrow>
     zod_description z = attached (description schema)"
  by (auto simp: vertexSchemaToZod.simps[of schema] applyNullable_def zod_description_describeIf
      z_union_def zod_description_makeStringZod zod_description_makeNumberZod
      zod_description_makeBooleanZod zod_description_makeArrayZod zod_description_makeObjectZod
      Let_def split: option.splits sum.splits SchemaType.splits if_splits)

lemma makeStringZod_nullable:
  "makeStringZod (VertexSchema ty fmt desc nul its en props req ex po ao mi ma mn mx) =
     (if nul = Some True then z_nullable else id)
       (makeStringZod (VertexSchema ty fmt desc None its en props req ex po ao mi ma mn mx))"
  by (simp add: makeStringZod_def applyNullable_def enum_list_def Let_def)

lemma makeNumberZod_nullable:
  "makeNumberZod (VertexSchema ty fmt desc nul its en props req ex po ao mi ma mn mx) =
     (if nul = Some True then z_nullable else id)
       (makeNumberZod (VertexSchema ty fmt desc None its en props req ex po ao mi ma mn mx))"
  by (simp add: makeNumberZod_def applyNullable_def Let_def)

lemma makeBooleanZod_nullable:
  "makeBooleanZod (VertexSchema ty fmt desc nul its en props req ex po ao mi ma mn mx) =
     (if nul = Some True then z_nullable else id)
       (makeBooleanZod (VertexSchema ty fmt desc None its en props req ex po ao mi ma mn mx))"
  by (simp add: makeBooleanZod_def applyNullable_def)

lemma makeArrayZod_nullable:
  "makeArrayZod (VertexSchema ty fmt desc nul its en props req ex po ao mi ma mn mx) =
     map_sum id (if nul = Some True then z_nullable else id)
       (makeArrayZod (VertexSchema ty fmt desc None its en props req ex po ao mi ma mn mx))"
  by (simp add: makeArrayZod.simps[of "VertexSchema ty fmt desc nul its en props req ex po ao mi ma mn mx"]
      makeArrayZod.simps[of "VertexSchema ty fmt desc None its en props req ex po ao mi ma mn mx"]
      applyNullable_def Let_def split: option.splits sum.splits)

lemma makeObjectZod_nullable:
  "makeObjectZod (VertexSchema ty fmt desc nul its en props req ex po ao mi ma mn mx) =
     map_sum id (if nul = Some True then z_nullable else id)
       (makeObjectZod (VertexSchema ty fmt desc None its en props req ex po ao mi ma mn mx))"
proof -
  let ?S = "VertexSchema ty fmt desc nul its en props req ex po ao mi ma mn mx"
  let ?N = "VertexSchema ty fmt desc None its en props req ex po ao mi ma mn mx"
  have same: "required_list ?S = required_list ?N" "properties_list ?S = properties_list ?N"
    by (simp_all add: required_list_def properties_list_def)
  show ?thesis
    unfolding makeObjectZod.simps[of ?S] makeObjectZod.simps[of ?N] same
    by (simp add: applyNullable_def Let_def split: sum.splits)
qed

lemma vertexSchemaToZod_nullable:
  "vertexSchemaToZod (VertexSchema ty fmt desc nul its en props req ex po ao mi ma mn mx) =
     map_sum id (if nul = Some True then z_nullable else id)
       (vertexSchemaToZod (VertexSchema ty fmt desc None its en props req ex po ao mi ma mn mx))"
proof -
  let ?S = "VertexSchema ty fmt desc nul its en props req ex po ao mi ma mn mx"
  let ?N = "VertexSchema ty fmt desc None its en props req ex po ao mi ma mn mx"
  have same: "anyOf_list ?S = anyOf_list ?N"
    by (simp add: anyOf_list_def)
  show ?thesis
  proof (cases "anyOf_list ?N = []")
    case False
    then show ?thesis
      unfolding vertexSchemaToZod.simps[of ?S] vertexSchemaToZod.simps[of ?N] same
      by (simp add: applyNullable_def Let_def split: sum.splits)
  next
    case True
    note leaf = makeStringZod_nullable[of ty fmt desc nul its en props req ex po ao mi ma mn mx]
      makeNumberZod_nullable[of ty fmt desc nul its en props req ex po ao mi ma mn mx]
      makeBooleanZod_nullable[of ty fmt desc nul its en props req ex po ao mi ma mn mx]
      makeArrayZod_nullable[of ty fmt desc nul its en props req ex po ao mi ma mn mx]
      makeObjectZod_nullable[of ty fmt desc nul its en props req ex po ao mi ma mn mx]
    show ?thesis
      unfolding vertexSchemaToZod.simps[of ?S] vertexSchemaToZod.simps[of ?N] same
      using True leaf by (auto split: option.splits SchemaType.splits)
  qed
qed

text \<open>
  C7. The conversion of a node is the conversion of the same node without the
  \<open>nullable\<close> field, wrapped in \<open>nullable()\<close> when \<open>nullable\<close> is \<open>true\<close> and left as
  it is when the field is absent or \<open>false\<close>; an error of the one is the error of the
  other. This holds for every node, a union included. The node under the wrapper
  already carries the description, so the wrapper is applied after \<open>describe\<close>, and the
  wrapped node accepts \<open>null\<close> and whatever the node under it accepts.
\<close>

theorem nullable_applied_last:
  "vertexSchemaToZod (VertexSchema ty fmt desc nul its en props req ex po ao mi ma mn mx) =
     (case vertexSchemaToZod
             (VertexSchema ty fmt desc None its en props req ex po ao mi ma mn mx) of
        Inl e \<Rightarrow> Inl e
      | Inr z \<Rightarrow> Inr (if nul = Some True then ZodNullable z (zod_description z) else z)) \<and>
   (\<forall>z. vertexSchemaToZod
           (VertexSchema ty fmt desc None its en props req ex po ao mi ma mn mx) = Inr z \<longrightarrow>
        zod_description z = attached desc \<and>
        (\<forall>v. accepts chk ext (ZodNullable z (zod_description z)) v =
               (v = JNull \<or> accepts chk ext z v)))"
proof -
  have "vertexSchemaToZod (VertexSchema ty fmt desc nul its en props req ex po ao mi ma mn mx) =
     (case vertexSchemaToZod
             (VertexSchema ty fmt desc None its en props req ex po ao mi ma mn mx) of
        Inl e \<Rightarrow> Inl e
      | Inr z \<Rightarrow> Inr (if nul = Some True then ZodNullable z (zod_description z) else z))"
    by (subst vertexSchemaToZod_nullable) (simp add: z_nullable_def split: sum.splits)
  moreover have "zod_description z = attached desc"
    if "vertexSchemaToZod
           (VertexSchema ty fmt desc None its en props req ex po ao mi ma mn mx) = Inr z" for z
    using zod_description_vertexSchemaToZod[OF _ that] by simp
  ultimately show ?thesis
    by simp
qed

theorem nullable_applied_last_witness:
  "vertexSchemaToZod (VertexSchema (Some STRING) None None None None None None None None
     None None None None None None) = Inr (ZodString [] None) \<and>
   vertexSchemaToZod nullable_string = Inr (ZodNullable (ZodString [] None) None) \<and>
   accepts (\<lambda>k s. True) (\<lambda>k v. False) (ZodNullable (ZodString [] None) None) JNull \<and>
   accepts (\<lambda>k s. True) (\<lambda>k v. False) (ZodNullable (ZodString [] None) None) (JString ''non-null'') \<and>
   vertexSchemaToZod (VertexSchema (Some STRING) None None (Some False) None None None None None
     None None None None None None) = Inr (ZodString [] None) \<and>
   \<not> accepts (\<lambda>k s. True) (\<lambda>k v. False) (ZodString [] None) JNull"
proof -
  have base: "vertexSchemaToZod (VertexSchema (Some STRING) None None None None None None None None
     None None None None None None) = Inr (ZodString [] None)"
    by (simp add: vertexSchemaToZod.simps makeStringZod_def anyOf_list_def enum_list_def
        z_string_def describeIf_def applyNullable_def)
  have t: "vertexSchemaToZod nullable_string = Inr (ZodNullable (ZodString [] None) None)"
    using nullable_applied_last [of "Some STRING" None None "Some True" None None None None None
        None None None None None None "\<lambda>k s. True" "\<lambda>k v. False"]
    by (simp add: base nullable_string_def)
  have f: "vertexSchemaToZod (VertexSchema (Some STRING) None None (Some False) None None None None None
     None None None None None None) = Inr (ZodString [] None)"
    using nullable_applied_last [of "Some STRING" None None "Some False" None None None None None
        None None None None None None "\<lambda>k s. True" "\<lambda>k v. False"]
    by (simp add: base)
  show ?thesis
    using base t f by simp
qed

subsection \<open>Union nodes\<close>

lemma sequence_sum_map_Inr [simp]: "sequence_sum (map Inr ys) = Inr ys"
  by (induction ys) simp_all

lemma sequence_sum_first_Inl [simp]: "sequence_sum (map Inr ys @ Inl e # rest) = Inl e"
  by (induction ys) simp_all

lemma describeIf_ZodUnion: "describeIf (ZodUnion vs None) d = ZodUnion vs (attached d)"
  by (simp add: describeIf_def attached_def split: option.splits)

lemma vertexSchemaToZod_anyOf:
  "anyOf_list schema \<noteq> [] \<Longrightarrow>
     vertexSchemaToZod schema =
       (case sequence_sum (map vertexSchemaToZod (anyOf_list schema)) of
          Inl e \<Rightarrow> Inl e
        | Inr vs \<Rightarrow>
            Inr ((if nullable schema = Some True then z_nullable else id)
                   (ZodUnion vs (attached (description schema)))))"
  by (subst vertexSchemaToZod.simps)
     (simp add: Let_def z_union_def describeIf_ZodUnion applyNullable_def split: sum.splits)

text \<open>
  C4. A node whose \<open>anyOf\<close> is present and not empty is converted as a union, whatever
  its \<open>type\<close>: the result is the same for every value of \<open>type\<close> (and \<open>items\<close>, \<open>enum\<close>
  and \<open>properties\<close> are not read). When the branches convert, to \<open>vs\<close>, one by one and in
  their order, the result is the \<open>ZodUnion\<close> of \<open>vs\<close>, carrying the node's description;
  when \<open>nullable\<close> is true it is that union inside a \<open>ZodNullable\<close>, and otherwise the
  union itself. When a branch fails, the error of the first such branch is the error of
  the node.
\<close>

theorem anyOf_union_reverse:
  "vertexSchemaToZod
     (VertexSchema ty fmt desc nul its en props req ex po (Some (b # bs)) mi ma mn mx) =
   vertexSchemaToZod
     (VertexSchema None fmt desc nul its en props req ex po (Some (b # bs)) mi ma mn mx) \<and>
   (\<forall>vs. map vertexSchemaToZod (b # bs) = map Inr vs \<longrightarrow>
      vertexSchemaToZod
        (VertexSchema ty fmt desc nul its en props req ex po (Some (b # bs)) mi ma mn mx) =
      Inr (if nul = Some True
           then ZodNullable (ZodUnion vs (attached desc)) (attached desc)
           else ZodUnion vs (attached desc))) \<and>
   (\<forall>vs e rest. map vertexSchemaToZod (b # bs) = map Inr vs @ Inl e # rest \<longrightarrow>
      vertexSchemaToZod
        (VertexSchema ty fmt desc nul its en props req ex po (Some (b # bs)) mi ma mn mx) =
      Inl e)"
proof -
  let ?S = "\<lambda>t. VertexSchema t fmt desc nul its en props req ex po (Some (b # bs)) mi ma mn mx"
  have ne: "anyOf_list (?S t) \<noteq> []" and al: "anyOf_list (?S t) = b # bs" for t
    by (simp_all add: anyOf_list_def)
  have unf: "vertexSchemaToZod (?S t) =
       (case sequence_sum (map vertexSchemaToZod (b # bs)) of
          Inl e \<Rightarrow> Inl e
        | Inr vs \<Rightarrow>
            Inr (if nul = Some True
                 then ZodNullable (ZodUnion vs (attached desc)) (attached desc)
                 else ZodUnion vs (attached desc)))" for t
    unfolding vertexSchemaToZod_anyOf[OF ne[of t]] al
    by (simp add: z_nullable_def cong: sum.case_cong)
  have 1: "vertexSchemaToZod (?S ty) = vertexSchemaToZod (?S None)"
    by (simp only: unf)
  have 2: "vertexSchemaToZod (?S ty) =
      Inr (if nul = Some True
           then ZodNullable (ZodUnion vs (attached desc)) (attached desc)
           else ZodUnion vs (attached desc))"
    if "map vertexSchemaToZod (b # bs) = map Inr vs" for vs
    by (simp only: unf that sequence_sum_map_Inr sum.case)
  have 3: "vertexSchemaToZod (?S ty) = Inl e"
    if "map vertexSchemaToZod (b # bs) = map Inr vs @ Inl e # rest" for vs e rest
    by (simp only: unf that sequence_sum_first_Inl sum.case)
  show ?thesis
    using 1 2 3 by blast
qed

theorem anyOf_union_reverse_witness:
  "map vertexSchemaToZod
     [VertexSchema (Some STRING) None None None None None None None None None None None
        None None None,
      VertexSchema (Some NUMBER) None None None None None None None None None None None
        None None None] = map Inr [ZodString [] None, ZodNumber [] None] \<and>
   vertexSchemaToZod string_or_number =
     Inr (ZodUnion [ZodString [] None, ZodNumber [] None] (Some ''Union of string or number'')) \<and>
   vertexSchemaToZod nullable_string_or_number =
     Inr (ZodNullable
            (ZodUnion [ZodString [] None, ZodNumber [] None] (Some ''Union of string or number''))
            (Some ''Union of string or number'')) \<and>
   vertexSchemaToZod
     (VertexSchema (Some ARRAY) None (Some ''Union of string or number'') None None None
        None None None None
        (Some [VertexSchema (Some STRING) None None None None None None None None None None None
                 None None None,
               VertexSchema (Some NUMBER) None None None None None None None None None None None
                 None None None])
        None None None None) = vertexSchemaToZod string_or_number"
proof -
  let ?b = "VertexSchema (Some STRING) None None None None None None None None None None None
        None None None"
  let ?c = "VertexSchema (Some NUMBER) None None None None None None None None None None None
        None None None"
  have br: "map vertexSchemaToZod [?b, ?c] = map Inr [ZodString [] None, ZodNumber [] None]"
    by (simp add: vertexSchemaToZod.simps makeStringZod_def makeNumberZod_def anyOf_list_def
        enum_list_def z_string_def z_number_def describeIf_def applyNullable_def)
  have at: "attached (Some ''Union of string or number'') = Some ''Union of string or number''"
    by (simp add: attached_def)
  note w = anyOf_union_reverse [of _ None "Some ''Union of string or number''" _ None None
      None None None None ?b "[?c]" None None None None]
  have 1: "vertexSchemaToZod string_or_number =
     Inr (ZodUnion [ZodString [] None, ZodNumber [] None] (Some ''Union of string or number''))"
    using w [of None None] br at unfolding string_or_number_def by simp
  have 2: "vertexSchemaToZod nullable_string_or_number =
     Inr (ZodNullable
            (ZodUnion [ZodString [] None, ZodNumber [] None] (Some ''Union of string or number''))
            (Some ''Union of string or number''))"
    using w [of None "Some True"] br at unfolding nullable_string_or_number_def by simp
  have 3: "vertexSchemaToZod
     (VertexSchema (Some ARRAY) None (Some ''Union of string or number'') None None None
        None None None None (Some [?b, ?c]) None None None None) =
     vertexSchemaToZod string_or_number"
    using w [of "Some ARRAY" None] unfolding string_or_number_def by blast
  show ?thesis
    using br 1 2 3 by blast
qed

text \<open>
  C10. With exactly one branch in \<open>anyOf\<close> the conversion fails only when the
  conversion of the branch fails, with that error: \<open>z.union\<close> does not check the number
  of its options when it is called. Otherwise the result is the \<open>ZodUnion\<close> of the one
  converted branch with the node's description on it, inside a \<open>ZodNullable\<close> when
  \<open>nullable\<close> is true; the returned node accepts exactly the values that the converted
  branch accepts and, when \<open>nullable\<close> is true, \<open>null\<close>.
\<close>

theorem single_branch_union_reverse:
  "(\<forall>zb. vertexSchemaToZod b = Inr zb \<longrightarrow>
      (\<exists>r. vertexSchemaToZod
             (VertexSchema ty fmt desc nul its en props req ex po (Some [b]) mi ma mn mx) =
             Inr r \<and>
           r = (if nul = Some True
                then ZodNullable (ZodUnion [zb] (attached desc)) (attached desc)
                else ZodUnion [zb] (attached desc)) \<and>
           (\<forall>v. accepts chk ext r v =
                  ((nul = Some True \<and> v = JNull) \<or> accepts chk ext zb v)))) \<and>
   (\<forall>e. vertexSchemaToZod b = Inl e \<longrightarrow>
      vertexSchemaToZod
        (VertexSchema ty fmt desc nul its en props req ex po (Some [b]) mi ma mn mx) = Inl e)"
proof -
  let ?S = "VertexSchema ty fmt desc nul its en props req ex po (Some [b]) mi ma mn mx"
  have ne: "anyOf_list ?S \<noteq> []" and al: "anyOf_list ?S = [b]"
    by (simp_all add: anyOf_list_def)
  have unf: "vertexSchemaToZod ?S =
       (case vertexSchemaToZod b of
          Inl e \<Rightarrow> Inl e
        | Inr zb \<Rightarrow>
            Inr (if nul = Some True
                 then ZodNullable (ZodUnion [zb] (attached desc)) (attached desc)
                 else ZodUnion [zb] (attached desc)))"
    unfolding vertexSchemaToZod_anyOf[OF ne] al
    by (simp add: z_nullable_def split: sum.splits)
  have acc: "accepts chk ext
               (if nul = Some True
                then ZodNullable (ZodUnion [zb] (attached desc)) (attached desc)
                else ZodUnion [zb] (attached desc)) v =
             ((nul = Some True \<and> v = JNull) \<or> accepts chk ext zb v)" for zb v
    by simp
  show ?thesis
    using acc by (simp add: unf)
qed

theorem single_branch_union_reverse_witness:
  "vertexSchemaToZod
     (VertexSchema (Some BOOLEAN) None None None None None None None None None None None
        None None None) = Inr (ZodBoolean None) \<and>
   vertexSchemaToZod
     (VertexSchema None None None None None None None None None None
        (Some [VertexSchema (Some BOOLEAN) None None None None None None None None None None
                 None None None None])
        None None None None) = Inr (ZodUnion [ZodBoolean None] None) \<and>
   accepts (\<lambda>k s. True) (\<lambda>k v. False) (ZodUnion [ZodBoolean None] None) (JBool True) \<and>
   \<not> accepts (\<lambda>k s. True) (\<lambda>k v. False) (ZodUnion [ZodBoolean None] None) (JString ''x'') \<and>
   \<not> accepts (\<lambda>k s. True) (\<lambda>k v. False) (ZodUnion [ZodBoolean None] None) JNull \<and>
   vertexSchemaToZod
     (VertexSchema None None (Some ''flag'') (Some True) None None None None None None
        (Some [VertexSchema (Some BOOLEAN) None None None None None None None None None None
                 None None None None])
        None None None None) =
     Inr (ZodNullable (ZodUnion [ZodBoolean None] (Some ''flag'')) (Some ''flag'')) \<and>
   accepts (\<lambda>k s. True) (\<lambda>k v. False)
     (ZodNullable (ZodUnion [ZodBoolean None] (Some ''flag'')) (Some ''flag'')) JNull \<and>
   accepts (\<lambda>k s. True) (\<lambda>k v. False)
     (ZodNullable (ZodUnion [ZodBoolean None] (Some ''flag'')) (Some ''flag'')) (JBool False) \<and>
   \<not> accepts (\<lambda>k s. True) (\<lambda>k v. False)
     (ZodNullable (ZodUnion [ZodBoolean None] (Some ''flag'')) (Some ''flag'')) (JString ''x'') \<and>
   vertexSchemaToZod
     (VertexSchema None None None None None None None None None None None None None None None) =
     Inl (Error ''Unsupported or missing schema.type: undefined'') \<and>
   vertexSchemaToZod
     (VertexSchema None None None None None None None None None None
        (Some [VertexSchema None None None None None None None None None None None None None
                 None None])
        None None None None) = Inl (Error ''Unsupported or missing schema.type: undefined'')"
proof -
  let ?b = "VertexSchema (Some BOOLEAN) None None None None None None None None None None None
        None None None"
  let ?m = "VertexSchema None None None None None None None None None None None None None
        None None"
  let ?chk = "\<lambda>(k::string) (s::string). True"
  let ?ext = "\<lambda>(k::string) (v::jsvalue). False"
  have b: "vertexSchemaToZod ?b = Inr (ZodBoolean None)"
    by (simp add: vertexSchemaToZod.simps makeBooleanZod_def anyOf_list_def z_boolean_def
        describeIf_def applyNullable_def)
  have m: "vertexSchemaToZod ?m = Inl (Error ''Unsupported or missing schema.type: undefined'')"
    by (simp add: vertexSchemaToZod.simps anyOf_list_def)
  have 1: "vertexSchemaToZod
     (VertexSchema None None None None None None None None None None (Some [?b])
        None None None None) = Inr (ZodUnion [ZodBoolean None] None)"
    using single_branch_union_reverse [of ?b None None None None None None None None None None
        None None None None ?chk ?ext] b
    by (simp add: attached_def)
  have 2: "vertexSchemaToZod
     (VertexSchema None None (Some ''flag'') (Some True) None None None None None None (Some [?b])
        None None None None) =
     Inr (ZodNullable (ZodUnion [ZodBoolean None] (Some ''flag'')) (Some ''flag''))"
    using single_branch_union_reverse [of ?b None None "Some ''flag''" "Some True" None None
        None None None None None None None None ?chk ?ext] b
    by (simp add: attached_def)
  have 3: "vertexSchemaToZod
     (VertexSchema None None None None None None None None None None (Some [?m])
        None None None None) = Inl (Error ''Unsupported or missing schema.type: undefined'')"
    using single_branch_union_reverse [of ?m None None None None None None None None None None
        None None None None ?chk ?ext] m
    by simp
  show ?thesis
    using b m 1 2 3 by simp
qed

subsection \<open>OBJECT nodes\<close>

lemma sequence_sum_Inr_D: "sequence_sum rs = Inr ys \<Longrightarrow> rs = map Inr ys"
  by (induction rs arbitrary: ys) (auto split: sum.splits)

lemma describeIf_ZodObject: "describeIf (ZodObject sh None) d = ZodObject sh (attached d)"
  by (simp add: describeIf_def attached_def split: option.splits)

lemma foldl_set_field:
  "foldl (\<lambda>shape kf. set_field shape (fst kf) (snd kf)) acc fields =
     acc @ filter (\<lambda>kf. fst kf \<noteq> ''__proto__'') fields"
  by (induction fields arbitrary: acc) (simp_all add: set_field_def)

lemma makeObjectZod_Inr_D:
  assumes "makeObjectZod schema = Inr r"
  shows "\<exists>fields. r = (if nullable schema = Some True then z_nullable else id)
                      (ZodObject (filter (\<lambda>kf. fst kf \<noteq> ''__proto__'') fields)
                         (attached (description schema))) \<and>
           map (\<lambda>kv. case vertexSchemaToZod (snd kv) of
                        Inl e \<Rightarrow> Inl e
                      | Inr zodField \<Rightarrow>
                          Inr (fst kv,
                               if fst kv \<notin> set (required_list schema)
                               then z_optional zodField else zodField))
               (properties_list schema) = map Inr fields"
  using assms
  by (auto simp: makeObjectZod.simps[of schema] Let_def z_object_def describeIf_ZodObject
      applyNullable_def foldl_set_field split: sum.splits dest: sequence_sum_Inr_D)

lemma not_undefined_makeStringZod: "\<not> accepts chk ext (makeStringZod schema) JUndefined"
  by (simp add: makeStringZod_def accepts_applyNullable z_enum_def z_literal_def z_string_def
      Let_def)

lemma not_undefined_makeNumberZod: "\<not> accepts chk ext (makeNumberZod schema) JUndefined"
  by (cases "minimum schema"; cases "maximum schema")
     (simp_all add: makeNumberZod_def accepts_applyNullable z_number_def Let_def)

lemma not_undefined_makeBooleanZod: "\<not> accepts chk ext (makeBooleanZod schema) JUndefined"
  by (simp add: makeBooleanZod_def accepts_applyNullable z_boolean_def)

lemma not_undefined_makeArrayZod:
  "makeArrayZod schema = Inr z \<Longrightarrow> \<not> accepts chk ext z JUndefined"
  by (cases "minItems schema"; cases "maxItems schema")
     (auto simp: makeArrayZod.simps[of schema] accepts_applyNullable z_array_def Let_def
       split: option.splits sum.splits)

lemma not_undefined_makeObjectZod:
  "makeObjectZod schema = Inr z \<Longrightarrow> \<not> accepts chk ext z JUndefined"
  by (auto dest!: makeObjectZod_Inr_D split: if_splits)

lemma not_undefined_vertexSchemaToZod:
  "vertexSchemaToZod schema = Inr z \<Longrightarrow> \<not> accepts chk ext z JUndefined"
proof (induction schema arbitrary: z rule: measure_induct_rule[of size])
  case (less schema)
  show ?case
  proof (cases "anyOf_list schema = []")
    case True
    then show ?thesis
      using less.prems
      by (auto simp: vertexSchemaToZod.simps[of schema] not_undefined_makeStringZod
          not_undefined_makeNumberZod not_undefined_makeBooleanZod
          dest: not_undefined_makeArrayZod not_undefined_makeObjectZod
          split: option.splits SchemaType.splits)
  next
    case False
    from less.prems obtain vs where
      vs: "sequence_sum (map vertexSchemaToZod (anyOf_list schema)) = Inr vs" and
      z: "z = (if nullable schema = Some True then z_nullable else id)
                (ZodUnion vs (attached (description schema)))"
      unfolding vertexSchemaToZod_anyOf[OF False] by (auto split: sum.splits)
    have "\<not> accepts chk ext v JUndefined" if "v \<in> set vs" for v
    proof -
      from vs have "map vertexSchemaToZod (anyOf_list schema) = map Inr vs"
        by (rule sequence_sum_Inr_D)
      then have "Inr v \<in> vertexSchemaToZod ` set (anyOf_list schema)"
        using that by (metis image_eqI list.set_map)
      then obtain sub where "sub \<in> set (anyOf_list schema)" "vertexSchemaToZod sub = Inr v"
        by auto
      then show ?thesis
        using less.IH[OF size_anyOf_list] by blast
    qed
    then show ?thesis
      by (auto simp: z list_ex_iff)
  qed
qed

text \<open>
  An OBJECT node (no non-empty \<open>anyOf\<close>, \<open>type\<close> OBJECT) none of whose properties has
  the key \<open>__proto__\<close>, when it converts, gives a \<open>ZodObject\<close> whose shape has the keys
  of \<open>properties\<close>, in the order of \<open>properties\<close>; the field of a key is the conversion
  of the key's schema, under \<open>optional()\<close> exactly when the key is not in \<open>required\<close>,
  so the field accepts \<open>undefined\<close> exactly then. \<open>propertyOrdering\<close> is not read: the
  result is the same for every value of it.
\<close>

lemma object_reverse_other_keys:
  assumes "anyOf_list schema = []" and "schema_type schema = Some OBJECT"
    and "vertexSchemaToZod schema = Inr r"
    and "''__proto__'' \<notin> set (map fst (properties_list schema))"
  shows "(\<exists>shape.
            r = (if nullable schema = Some True then z_nullable else id)
                  (ZodObject shape (attached (description schema))) \<and>
            map fst shape = map fst (properties_list schema) \<and>
            (\<forall>i < length shape.
               (\<exists>z. vertexSchemaToZod (snd (properties_list schema ! i)) = Inr z \<and>
                    snd (shape ! i) =
                      (if fst (properties_list schema ! i) \<in> set (required_list schema)
                       then z else ZodOptional z (zod_description z))) \<and>
               accepts chk ext (snd (shape ! i)) JUndefined =
                 (fst (properties_list schema ! i) \<notin> set (required_list schema)))) \<and>
         (\<forall>po. vertexSchemaToZod
                  (VertexSchema (schema_type schema) (format schema) (description schema)
                     (nullable schema) (items schema) (enum_values schema) (properties schema)
                     (required schema) (example schema) po (anyOf schema) (minItems schema)
                     (maxItems schema) (minimum schema) (maximum schema)) = Inr r)"
proof -
  let ?ps = "properties_list schema"
  let ?g = "\<lambda>kv. case vertexSchemaToZod (snd kv) of
                    Inl e \<Rightarrow> Inl e
                  | Inr zodField \<Rightarrow>
                      Inr (fst kv,
                           if fst kv \<notin> set (required_list schema)
                           then z_optional zodField else zodField)"
  have obj: "vertexSchemaToZod schema = makeObjectZod schema"
    using assms(1,2) by (simp add: vertexSchemaToZod.simps[of schema])
  have "makeObjectZod schema = Inr r"
    using obj assms(3) by simp
  from makeObjectZod_Inr_D[OF this] obtain shape where
    r0: "r = (if nullable schema = Some True then z_nullable else id)
              (ZodObject (filter (\<lambda>kf. fst kf \<noteq> ''__proto__'') shape)
                 (attached (description schema)))" and
    m: "map ?g ?ps = map Inr shape"
    by blast
  have len: "length shape = length ?ps"
    using arg_cong[OF m, of length] by simp
  have field: "\<exists>z. vertexSchemaToZod (snd (?ps ! i)) = Inr z \<and>
                 shape ! i = (fst (?ps ! i),
                   if fst (?ps ! i) \<in> set (required_list schema)
                   then z else ZodOptional z (zod_description z))"
    if "i < length shape" for i
  proof -
    have g: "?g (?ps ! i) = Inr (shape ! i)"
      using arg_cong[OF m, of "\<lambda>xs. xs ! i"] that len by simp
    show ?thesis
    proof (cases "vertexSchemaToZod (snd (?ps ! i))")
      case (Inl e)
      then show ?thesis
        using g by simp
    next
      case (Inr z)
      then have "shape ! i = (fst (?ps ! i),
                   if fst (?ps ! i) \<in> set (required_list schema)
                   then z else ZodOptional z (zod_description z))"
        using g by (auto simp: z_optional_def)
      then show ?thesis
        using Inr by simp
    qed
  qed
  have keys: "map fst shape = map fst ?ps"
  proof (rule nth_equalityI)
    show "length (map fst shape) = length (map fst ?ps)"
      using len by simp
  next
    fix i
    assume "i < length (map fst shape)"
    then show "map fst shape ! i = map fst ?ps ! i"
      using field[of i] len by auto
  qed
  have "fst kf \<noteq> ''__proto__''" if "kf \<in> set shape" for kf
  proof -
    from that have "fst kf \<in> set (map fst shape)"
      by simp
    then have inps: "fst kf \<in> set (map fst ?ps)"
      unfolding keys .
    show ?thesis
    proof
      assume "fst kf = ''__proto__''"
      then have "''__proto__'' \<in> set (map fst ?ps)"
        using inps by (simp only:)
      then show False
        using assms(4) by (simp only: not_True_eq_False)
    qed
  qed
  then have "filter (\<lambda>kf. fst kf \<noteq> ''__proto__'') shape = shape"
    by (simp add: filter_id_conv)
  then have r: "r = (if nullable schema = Some True then z_nullable else id)
                      (ZodObject shape (attached (description schema)))"
    using r0 by simp
  have opt: "accepts chk ext (snd (shape ! i)) JUndefined =
               (fst (?ps ! i) \<notin> set (required_list schema))"
    if "i < length shape" for i
    using field[OF that] not_undefined_vertexSchemaToZod[of "snd (?ps ! i)" _ chk ext]
    by auto
  have po: "vertexSchemaToZod
              (VertexSchema (schema_type schema) (format schema) (description schema)
                 (nullable schema) (items schema) (enum_values schema) (properties schema)
                 (required schema) (example schema) po (anyOf schema) (minItems schema)
                 (maxItems schema) (minimum schema) (maximum schema)) = Inr r" for po
  proof -
    let ?S = "VertexSchema (schema_type schema) (format schema) (description schema)
                 (nullable schema) (items schema) (enum_values schema) (properties schema)
                 (required schema) (example schema) po (anyOf schema) (minItems schema)
                 (maxItems schema) (minimum schema) (maximum schema)"
    have same: "anyOf_list ?S = anyOf_list schema" "properties_list ?S = properties_list schema"
      "required_list ?S = required_list schema"
      by (simp_all add: anyOf_list_def properties_list_def required_list_def)
    have "vertexSchemaToZod ?S = makeObjectZod ?S"
      unfolding vertexSchemaToZod.simps[of ?S] same using assms(1,2) by simp
    also have "\<dots> = makeObjectZod schema"
      unfolding makeObjectZod.simps[of ?S] makeObjectZod.simps[of schema] same
      by (simp add: applyNullable_def Let_def cong: sum.case_cong)
    finally show ?thesis
      using obj assms(3) by simp
  qed
  have field': "\<exists>z. vertexSchemaToZod (snd (?ps ! i)) = Inr z \<and>
                  snd (shape ! i) =
                    (if fst (?ps ! i) \<in> set (required_list schema)
                     then z else ZodOptional z (zod_description z))"
    if "i < length shape" for i
  proof -
    from field[OF that] obtain z where "vertexSchemaToZod (snd (?ps ! i)) = Inr z"
      and "shape ! i = (fst (?ps ! i),
                   if fst (?ps ! i) \<in> set (required_list schema)
                   then z else ZodOptional z (zod_description z))"
      by blast
    then show ?thesis
      by (intro exI[of _ z]) simp
  qed
  have fields: "\<forall>i < length shape.
               (\<exists>z. vertexSchemaToZod (snd (?ps ! i)) = Inr z \<and>
                    snd (shape ! i) =
                      (if fst (?ps ! i) \<in> set (required_list schema)
                       then z else ZodOptional z (zod_description z))) \<and>
               accepts chk ext (snd (shape ! i)) JUndefined =
                 (fst (?ps ! i) \<notin> set (required_list schema))"
    using field' opt by blast
  show ?thesis
    using r keys fields po by blast
qed

lemma object_reverse_other_keys_example:
  "anyOf_list person_object = [] \<and> schema_type person_object = Some OBJECT \<and>
   ''__proto__'' \<notin> set (map fst (properties_list person_object)) \<and>
   vertexSchemaToZod person_object =
     Inr (ZodObject [(''name'', ZodString [] None),
                     (''age'', ZodNumber [IntCheck] None),
                     (''nick'', ZodOptional (ZodString [] None) None)]
            (Some ''Person object'')) \<and>
   vertexSchemaToZod
     (VertexSchema (schema_type person_object) (format person_object)
        (description person_object) (nullable person_object) (items person_object)
        (enum_values person_object) (properties person_object) (required person_object)
        (example person_object) (Some [''nick'', ''age'', ''name'']) (anyOf person_object)
        (minItems person_object) (maxItems person_object) (minimum person_object)
        (maximum person_object)) = vertexSchemaToZod person_object"
proof -
  let ?str = "VertexSchema (Some STRING) None None None None None None None None None
                        None None None None None"
  let ?int = "VertexSchema (Some INTEGER) None None None None None None None None None
                        None None None None None"
  have s: "vertexSchemaToZod ?str = Inr (ZodString [] None)"
    by (simp add: vertexSchemaToZod.simps makeStringZod_def anyOf_list_def enum_list_def
        z_string_def describeIf_def applyNullable_def)
  have n: "vertexSchemaToZod ?int = Inr (ZodNumber [IntCheck] None)"
    by (simp add: vertexSchemaToZod.simps makeNumberZod_def anyOf_list_def
        z_number_def describeIf_def applyNullable_def)
  have a: "anyOf_list person_object = []" "schema_type person_object = Some OBJECT"
    by (simp_all add: person_object_def anyOf_list_def)
  have c: "vertexSchemaToZod person_object =
     Inr (ZodObject [(''name'', ZodString [] None),
                     (''age'', ZodNumber [IntCheck] None),
                     (''nick'', ZodOptional (ZodString [] None) None)]
            (Some ''Person object''))"
    unfolding vertexSchemaToZod.simps[of person_object] makeObjectZod.simps[of person_object]
    by (simp add: person_object_def anyOf_list_def properties_list_def required_list_def s n
        z_optional_def z_object_def describeIf_def applyNullable_def set_field_def)
  have k: "''__proto__'' \<notin> set (map fst (properties_list person_object))"
    by (simp add: person_object_def properties_list_def)
  show ?thesis
    using a c k object_reverse_other_keys [OF a c k, of "\<lambda>k s. True" "\<lambda>k v. False"] by simp
qed

text \<open>
  C6 does not hold of the code for a property with the key \<open>__proto__\<close>. The node
  \<open>{type: OBJECT, properties: {"__proto__": {type: STRING}}, required: ["__proto__"]}\<close>,
  with \<open>__proto__\<close> an own key as \<open>JSON.parse\<close> creates it, converts to an object schema
  without any field: the assignment \<open>shape[key] = zodField\<close> sets the prototype of
  \<open>shape\<close>. So the result accepts \<open>{}\<close>, which the object schema over the one required
  string field \<open>__proto__\<close> rejects.
\<close>

theorem object_reverse_proto_key:
  "properties_list proto_key_object = [(''__proto__'', plain_string)] \<and>
   required_list proto_key_object = [''__proto__''] \<and>
   vertexSchemaToZod plain_string = Inr (ZodString [] None) \<and>
   vertexSchemaToZod proto_key_object = Inr (ZodObject [] None) \<and>
   accepts chk ext (ZodObject [] None) (JObject []) \<and>
   \<not> accepts chk ext (ZodObject [(''__proto__'', ZodString [] None)] None) (JObject [])"
proof -
  have s: "vertexSchemaToZod plain_string = Inr (ZodString [] None)"
    by (simp add: plain_string_def vertexSchemaToZod.simps makeStringZod_def anyOf_list_def
        enum_list_def z_string_def describeIf_def applyNullable_def)
  have c: "vertexSchemaToZod proto_key_object = Inr (ZodObject [] None)"
    unfolding vertexSchemaToZod.simps[of proto_key_object]
      makeObjectZod.simps[of proto_key_object]
    by (simp add: proto_key_object_def anyOf_list_def properties_list_def required_list_def s
        z_object_def describeIf_def applyNullable_def set_field_def)
  show ?thesis
    using s c
    by (simp add: proto_key_object_def properties_list_def required_list_def lookup_def)
qed

subsection \<open>Failure of the conversion\<close>










section \<open>Properties of the forward converter\<close>

subsection \<open>The round trip of the test suite\<close>

text \<open>
  C1. The object schema of the round-trip test converts to \<open>user_vertex\<close>, and
  \<open>user_vertex\<close> converts back to a schema (the very same one); the original and the
  reconstructed schema accept \<open>{name: "Bob", age: 55}\<close> and reject
  \<open>{name: "Bob", age: 9}\<close>.
\<close>

theorem round_trip_user_object:
  "zodToVertexSchema user_object = Inr user_vertex \<and>
   (\<exists>reconstructed.
      vertexSchemaToZod user_vertex = Inr reconstructed \<and>
      accepts chk ext user_object valid_user \<and>
      accepts chk ext reconstructed valid_user \<and>
      \<not> accepts chk ext user_object invalid_user \<and>
      \<not> accepts chk ext reconstructed invalid_user)"
proof -
  have fwd: "zodToVertexSchema user_object = Inr user_vertex"
    by (simp add: user_object_def user_vertex_def)
  have name: "vertexSchemaToZod
      (VertexSchema (Some STRING) None (Some ''Name field'') None None None None
         None None None None None None None None) = Inr (ZodString [] (Some ''Name field''))"
    by (simp add: vertexSchemaToZod.simps makeStringZod_def anyOf_list_def enum_list_def
        z_string_def describeIf_def applyNullable_def)
  have age: "vertexSchemaToZod
      (VertexSchema (Some NUMBER) None (Some ''Age field'') None None None None
         None None None None None None (Some 10) (Some 100)) =
      Inr (ZodNumber [MinCheck 10, MaxCheck 100] (Some ''Age field''))"
    by (simp add: vertexSchemaToZod.simps makeNumberZod_def anyOf_list_def
        z_number_def describeIf_def applyNullable_def)
  have rev: "vertexSchemaToZod user_vertex = Inr user_object"
    unfolding user_vertex_def user_object_def
    by (subst vertexSchemaToZod.simps, subst makeObjectZod.simps)
       (simp add: anyOf_list_def properties_list_def required_list_def name age
         z_object_def describeIf_def applyNullable_def set_field_def)
  have ok: "accepts chk ext user_object valid_user"
    by (simp add: user_object_def valid_user_def lookup_def)
  have bad: "\<not> accepts chk ext user_object invalid_user"
    by (simp add: user_object_def invalid_user_def lookup_def)
  show ?thesis
    using fwd rev ok bad by simp
qed


subsection \<open>The order of the properties\<close>

lemma sequence_sum_fields_D:
  "sequence_sum (map (\<lambda>kt. case f (snd kt) of Inl e \<Rightarrow> Inl e | Inr v \<Rightarrow> Inr (fst kt, v)) shape)
     = Inr props \<Longrightarrow>
   map fst props = map fst shape \<and>
   (\<forall>p \<in> set props. \<exists>kt \<in> set shape. f (snd kt) = Inr (snd p))"
proof (induction shape arbitrary: props)
  case Nil
  then show ?case by simp
next
  case (Cons kt shape)
  from Cons.prems obtain v rest where v: "f (snd kt) = Inr v"
    and rest: "sequence_sum (map (\<lambda>kt. case f (snd kt) of Inl e \<Rightarrow> Inl e
                                        | Inr v \<Rightarrow> Inr (fst kt, v)) shape) = Inr rest"
    and props: "props = (fst kt, v) # rest"
    by (auto split: sum.splits)
  show ?case
    using Cons.IH[OF rest] v props by auto
qed

lemma sequence_sum_map_D:
  "sequence_sum (map f xs) = Inr ys \<Longrightarrow> \<forall>y \<in> set ys. \<exists>x \<in> set xs. f x = Inr y"
proof (induction xs arbitrary: ys)
  case Nil
  then show ?case by simp
next
  case (Cons x xs)
  from Cons.prems obtain y rest where "f x = Inr y" "sequence_sum (map f xs) = Inr rest"
    "ys = y # rest"
    by (auto split: sum.splits)
  then show ?case
    using Cons.IH[of rest] by auto
qed

lemma ordering_with_description:
  "ordering_matches_properties (with_description d v) = ordering_matches_properties v"
  by (cases v)
     (simp add: ordering_matches_properties.simps[of "VertexSchema _ _ _ _ _ _ _ _ _ _ _ _ _ _ _"]
       subschemas_def properties_list_def anyOf_list_def)

lemma ordering_with_nullable:
  "ordering_matches_properties (with_nullable v) = ordering_matches_properties v"
  by (cases v)
     (simp add: ordering_matches_properties.simps[of "VertexSchema _ _ _ _ _ _ _ _ _ _ _ _ _ _ _"]
       subschemas_def properties_list_def anyOf_list_def)

lemma ordering_leaf:
  "ty \<noteq> Some OBJECT \<Longrightarrow>
   ordering_matches_properties
     (VertexSchema ty fmt d nul None en None req ex po None mi ma mn mx)"
  by (subst ordering_matches_properties.simps)
     (simp add: subschemas_def properties_list_def anyOf_list_def)

lemma forward_ordering:
  "zodToVertexSchema z = Inr v \<Longrightarrow> ordering_matches_properties v"
proof (induction z arbitrary: v rule: zodToVertexSchema.induct)
  case (1 t d)
  then show ?case
    by (auto simp: ordering_with_description split: sum.splits)
next
  case (2 t d)
  then show ?case
    by (auto simp: ordering_with_description ordering_with_nullable split: sum.splits)
next
  case (3 d)
  then show ?case
    by (auto simp: ordering_leaf)
next
  case (4 cs d)
  then show ?case
    by (auto simp: ordering_leaf split: sum.splits)
next
  case (5 cs d)
  then show ?case
    by (auto simp: ordering_leaf)
next
  case (6 d)
  then show ?case
    by (auto simp: ordering_leaf)
next
  case (7 vs d)
  then show ?case
    by (auto simp: ordering_leaf)
next
  case (8 w d)
  then show ?case
    by (cases w) (auto simp: ordering_leaf)
next
  case (9 element minLength maxLength exactLength d)
  then obtain its where its: "zodToVertexSchema element = Inr its"
    and v: "v = VertexSchema (Some ARRAY) None d None (Some its) None None None None None None
                 (case exactLength of Some n \<Rightarrow> Some n | None \<Rightarrow> minLength)
                 (case exactLength of Some n \<Rightarrow> Some n | None \<Rightarrow> maxLength)
                 None None"
    by (auto split: sum.splits)
  have "ordering_matches_properties its"
    using "9.IH" its by simp
  then show ?case
    unfolding v
    by (subst ordering_matches_properties.simps)
       (simp add: subschemas_def properties_list_def anyOf_list_def)
next
  case (10 shape d)
  then obtain props where
    props: "sequence_sum
             (map (\<lambda>kt. case zodToVertexSchema (snd kt) of
                          Inl e \<Rightarrow> Inl e
                        | Inr v \<Rightarrow> Inr (fst kt, v)) shape) = Inr props"
    and v: "v = VertexSchema (Some OBJECT) None d None None None (Some props)
                 (Some (map fst (filter (\<lambda>kt. \<not> wrapped_optional (snd kt)) shape)))
                 None (Some (map fst shape)) None None None None None"
    by (auto split: sum.splits)
  note D = sequence_sum_fields_D[OF props]
  have "ordering_matches_properties (snd p)" if "p \<in> set props" for p
  proof -
    from D that obtain kt where "kt \<in> set shape" "zodToVertexSchema (snd kt) = Inr (snd p)"
      by blast
    then show ?thesis
      using "10.IH" by blast
  qed
  then have "list_all ordering_matches_properties (map snd props)"
    by (simp add: list_all_iff)
  then show ?case
    unfolding v using D
    by (subst ordering_matches_properties.simps)
       (simp add: subschemas_def properties_list_def anyOf_list_def)
next
  case (11 opts d)
  then obtain branches where
    br: "sequence_sum (map zodToVertexSchema opts) = Inr branches"
    and v: "v = VertexSchema None None d None None None None None None None (Some branches)
                 None None None None"
    by (auto split: sum.splits)
  have "ordering_matches_properties b" if "b \<in> set branches" for b
    using sequence_sum_map_D[OF br] that "11.IH" by blast
  then have "list_all ordering_matches_properties branches"
    by (simp add: list_all_iff)
  then show ?case
    unfolding v
    by (subst ordering_matches_properties.simps)
       (simp add: subschemas_def properties_list_def anyOf_list_def)
next
  case (12 k opts d)
  then obtain branches where
    br: "sequence_sum (map zodToVertexSchema opts) = Inr branches"
    and v: "v = VertexSchema None None d None None None None None None None (Some branches)
                 None None None None"
    by (auto split: sum.splits)
  have "ordering_matches_properties b" if "b \<in> set branches" for b
    using sequence_sum_map_D[OF br] that "12.IH" by blast
  then have "list_all ordering_matches_properties branches"
    by (simp add: list_all_iff)
  then show ?case
    unfolding v
    by (subst ordering_matches_properties.simps)
       (simp add: subschemas_def properties_list_def anyOf_list_def)
next
  case (13 t d)
  then show ?case by simp
next
  case (14 k d)
  then show ?case by simp
qed


lemma declared_order_with_description:
  "declared_order z (with_description d v) = declared_order z v"
  by (induction z; cases v) (simp_all add: properties_list_def anyOf_list_def)

lemma declared_order_with_nullable:
  "declared_order z (with_nullable v) = declared_order z v"
  by (induction z; cases v) (simp_all add: properties_list_def anyOf_list_def)

lemma sequence_sum_zip:
  assumes "sequence_sum (map f xs) = Inr ys"
    and "\<And>x y. x \<in> set xs \<Longrightarrow> f x = Inr y \<Longrightarrow> R x y"
  shows "length ys = length xs \<and> list_all (\<lambda>xy. R (fst xy) (snd xy)) (zip xs ys)"
  using assms
proof (induction xs arbitrary: ys)
  case Nil
  then show ?case by simp
next
  case (Cons x xs)
  from Cons.prems(1) obtain y rest where y: "f x = Inr y"
    and rest: "sequence_sum (map f xs) = Inr rest" and ys: "ys = y # rest"
    by (auto split: sum.splits)
  have "R x y"
    using Cons.prems(2) y by simp
  moreover have "length rest = length xs \<and> list_all (\<lambda>xy. R (fst xy) (snd xy)) (zip xs rest)"
    using Cons.IH[OF rest] Cons.prems(2) by simp
  ultimately show ?case
    by (simp add: ys)
qed

lemma forward_declared_order:
  "zodToVertexSchema z = Inr v \<Longrightarrow> declared_order z v"
proof (induction z arbitrary: v rule: zodToVertexSchema.induct)
  case (1 t d)
  then show ?case
    by (auto simp: declared_order_with_description split: sum.splits)
next
  case (2 t d)
  then show ?case
    by (auto simp: declared_order_with_description declared_order_with_nullable
        split: sum.splits)
next
  case (9 element minLength maxLength exactLength d)
  then show ?case
    by (auto split: sum.splits)
next
  case (10 shape d)
  let ?g = "\<lambda>kt. case zodToVertexSchema (snd kt) of
                    Inl e \<Rightarrow> Inl e
                  | Inr v \<Rightarrow> Inr (fst kt, v)"
  from "10.prems" obtain props where
    props: "sequence_sum (map ?g shape) = Inr props"
    and v: "v = VertexSchema (Some OBJECT) None d None None None (Some props)
                 (Some (map fst (filter (\<lambda>kt. \<not> wrapped_optional (snd kt)) shape)))
                 None (Some (map fst shape)) None None None None None"
    by (auto split: sum.splits)
  have each: "fst p = fst kt \<and> declared_order (snd kt) (snd p)"
    if "kt \<in> set shape" "?g kt = Inr p" for kt p
  proof (cases "zodToVertexSchema (snd kt)")
    case (Inl e)
    then show ?thesis
      using that(2) by simp
  next
    case (Inr w)
    then have "p = (fst kt, w)"
      using that(2) by simp
    then show ?thesis
      using "10.IH"[OF that(1) Inr] by simp
  qed
  have z: "length props = length shape \<and>
        list_all (\<lambda>kp. fst (snd kp) = fst (fst kp) \<and>
                       declared_order (snd (fst kp)) (snd (snd kp))) (zip shape props)"
    by (rule sequence_sum_zip[OF props]) (use each in blast)
  then have "list_all (\<lambda>kp. declared_order (snd (fst kp)) (snd (snd kp))) (zip shape props)"
    by (simp add: list_all_iff)
  moreover have "map fst props = map fst shape"
    using sequence_sum_fields_D[OF props] by simp
  ultimately show ?case
    by (simp add: v properties_list_def)
next
  case (11 opts d)
  from "11.prems" obtain branches where
    br: "sequence_sum (map zodToVertexSchema opts) = Inr branches"
    and v: "v = VertexSchema None None d None None None None None None None (Some branches)
                 None None None None"
    by (auto split: sum.splits)
  have "length branches = length opts \<and>
        list_all (\<lambda>ob. declared_order (fst ob) (snd ob)) (zip opts branches)"
    by (rule sequence_sum_zip[OF br]) (use "11.IH" in blast)
  then show ?case
    by (simp add: v anyOf_list_def)
next
  case (12 k opts d)
  from "12.prems" obtain branches where
    br: "sequence_sum (map zodToVertexSchema opts) = Inr branches"
    and v: "v = VertexSchema None None d None None None None None None None (Some branches)
                 None None None None"
    by (auto split: sum.splits)
  have "length branches = length opts \<and>
        list_all (\<lambda>ob. declared_order (fst ob) (snd ob)) (zip opts branches)"
    by (rule sequence_sum_zip[OF br]) (use "12.IH" in blast)
  then show ?case
    by (simp add: v anyOf_list_def)
qed simp_all

text \<open>
  C2. When the forward conversion succeeds, the produced tree follows the declared
  order of the source: for every object schema of the source, at whatever depth, the
  node produced for it is an OBJECT node whose \<open>propertyOrdering\<close> and whose keys of
  \<open>properties\<close> are the names of the declared fields, in the order of the declaration,
  whether the fields are optional or not. So every OBJECT node of the produced tree has
  \<open>propertyOrdering\<close> equal to the sequence of the keys of its \<open>properties\<close>.
\<close>

theorem property_ordering_forward:
  assumes "zodToVertexSchema z = Inr v"
  shows "declared_order z v \<and>
         ordering_matches_properties v \<and>
         (\<forall>shape d. z = ZodObject shape d \<longrightarrow>
            schema_type v = Some OBJECT \<and>
            propertyOrdering v = Some (map fst shape) \<and>
            map_option (map fst) (properties v) = Some (map fst shape))"
proof -
  have "declared_order z v"
    using assms by (rule forward_declared_order)
  moreover have "ordering_matches_properties v"
    using assms by (rule forward_ordering)
  moreover have "schema_type v = Some OBJECT \<and> propertyOrdering v = Some (map fst shape) \<and>
        map_option (map fst) (properties v) = Some (map fst shape)"
    if "z = ZodObject shape d" for shape d
  proof -
    from assms that obtain props where
      props: "sequence_sum
               (map (\<lambda>kt. case zodToVertexSchema (snd kt) of
                            Inl e \<Rightarrow> Inl e
                          | Inr v \<Rightarrow> Inr (fst kt, v)) shape) = Inr props"
      and v: "v = VertexSchema (Some OBJECT) None d None None None (Some props)
                   (Some (map fst (filter (\<lambda>kt. \<not> wrapped_optional (snd kt)) shape)))
                   None (Some (map fst shape)) None None None None None"
      by (auto split: sum.splits)
    show ?thesis
      using sequence_sum_fields_D[OF props] by (simp add: v)
  qed
  ultimately show ?thesis
    by blast
qed

theorem property_ordering_forward_witness:
  "zodToVertexSchema ordered_object = Inr ordered_vertex \<and>
   ordering_matches_properties ordered_vertex \<and>
   propertyOrdering ordered_vertex = Some [''id'', ''count'', ''createdAt''] \<and>
   map_option (map fst) (properties ordered_vertex) = Some [''id'', ''count'', ''createdAt''] \<and>
   required ordered_vertex = Some [''id'', ''createdAt''] \<and>
   zodToVertexSchema nested_object = Inr nested_vertex \<and>
   declared_order nested_object nested_vertex \<and>
   propertyOrdering nested_vertex = Some [''user'', ''tags''] \<and>
   map (\<lambda>p. propertyOrdering (snd p)) (properties_list nested_vertex) =
     [Some [''id'', ''username''], None] \<and>
   map (\<lambda>p. map_option propertyOrdering (items (snd p))) (properties_list nested_vertex) =
     [None, Some (Some [''b'', ''a''])]"
proof -
  have c: "zodToVertexSchema ordered_object = Inr ordered_vertex"
    by (simp add: ordered_object_def ordered_vertex_def)
  have "ordering_matches_properties ordered_vertex"
    using property_ordering_forward [OF c] by blast
  moreover have "propertyOrdering ordered_vertex = Some [''id'', ''count'', ''createdAt'']"
    "map_option (map fst) (properties ordered_vertex) = Some [''id'', ''count'', ''createdAt'']"
    using property_ordering_forward [OF c] by (simp_all add: ordered_object_def)
  moreover have "required ordered_vertex = Some [''id'', ''createdAt'']"
    by (simp add: ordered_vertex_def)
  moreover have n: "zodToVertexSchema nested_object = Inr nested_vertex"
    by (simp add: nested_object_def nested_vertex_def)
  moreover have d: "declared_order nested_object nested_vertex"
    using property_ordering_forward [OF n] by blast
  moreover have "propertyOrdering nested_vertex = Some [''user'', ''tags'']"
    using property_ordering_forward [OF n] by (simp add: nested_object_def)
  moreover have
    "map (\<lambda>p. propertyOrdering (snd p)) (properties_list nested_vertex) =
       [Some [''id'', ''username''], None]"
    "map (\<lambda>p. map_option propertyOrdering (items (snd p))) (properties_list nested_vertex) =
       [None, Some (Some [''b'', ''a''])]"
    by (simp_all add: nested_vertex_def properties_list_def)
  ultimately show ?thesis
    using c by simp
qed

end
